theory Spec2Isabelle
  imports Complex_Main "HOL-Library.Log_Nat"
begin

section \<open>Data model\<close>

text \<open>
  The media processing platform keeps one row per submitted job in the table
  \<open>media_tasks\<close> (\<open>models.py\<close>), drives a fixed chain of six Celery tasks over a
  context dictionary (\<open>tasks.py\<close>), admits jobs through \<open>upload_media\<close> and streams
  their state through \<open>task_updates\<close> (\<open>main.py\<close>).

  Paths and identifiers are Python strings. The primary key is a UUID; the task
  functions receive it as a string and convert it with Python's \<open>UUID(...)\<close>, which
  raises \<open>ValueError\<close> on a malformed string. That conversion is library code, so
  it is a parameter \<open>UUID :: string \<Rightarrow> uuid option\<close> of the model (\<open>None\<close>: it raises).
\<close>

type_synonym path = string
type_synonym uuid = nat

text \<open>JSON values, for the \<open>outputs\<close> column and the Celery result metadata.\<close>

datatype json = JNull | JInt int | JString string | JArray "json list" | JObject "(string \<times> json) list"

text \<open>
  \<open>class MediaTask\<close>; its column \<open>id\<close> is the field \<open>task_id\<close>. The two timestamps
  are maintained by the database server (\<open>server_default\<close>, \<open>onupdate\<close>) and are no
  part of the model.
\<close>

record media_task =
  task_id :: uuid
  user_id :: string
  original_filename :: string
  status :: string
  progress :: int
  celery_task_id :: "string option"
  source_path :: string
  thumbnail_path :: "string option"
  outputs :: json
  error_message :: "string option"

text \<open>The exceptions the code raises or lets through, with their message.\<close>

datatype exn =
    ValueError string
  | KeyError string
  | ZeroDivisionError string
  | OSError string
  | TransientProcessingError string
  | BotoCoreError string
  | ClientError string
  | S3UploadFailedError string
  | IntegrityError string
  | HTTPException nat string

text \<open>What a file written by the program holds, as far as the program decides it.\<close>

datatype content =
    Bytes string
  | PIL_thumbnail path
  | PIL_resize path nat nat
  | PIL_watermark path string
  | Ffmpeg_output "string list"

text \<open>
  Everything the program does to the outside is recorded, in order, in a trace:
  a committed transaction (with the row as committed), a file written, a task body
  entered by a worker (task name and \<open>request.retries\<close>), a retry scheduled (task name
  and countdown in seconds), \<open>self.update_state\<close>, and a chain handed to the broker.
\<close>

datatype event =
    Commit media_task
  | Written path content
  | Invoked string nat
  | Retry string nat
  | Update_state string int string
  | Enqueued string path string

record state =
  rows :: "media_task list"
  trace :: "event list"

definition log_event :: "event \<Rightarrow> state \<Rightarrow> state" where
  "log_event e s = s\<lparr>trace := trace s @ [e]\<rparr>"

text \<open>\<open>db.get(MediaTask, key)\<close>: the row with that primary key, if any.\<close>

definition db_get :: "media_task list \<Rightarrow> uuid \<Rightarrow> media_task option" where
  "db_get rs u = find (\<lambda>r. task_id r = u) rs"

text \<open>Writing a loaded row back on commit.\<close>

definition db_put :: "media_task list \<Rightarrow> media_task \<Rightarrow> media_task list" where
  "db_put rs r' = map (\<lambda>r. if task_id r = task_id r' then r' else r) rs"

section \<open>The store update (\<open>tasks.py\<close>)\<close>

text \<open>
  \<open>update_media_row\<close>: open a session, load the row, return silently when there is
  none, otherwise assign each argument that is not \<open>None\<close> and commit. There is no
  test of the stored status.
\<close>

definition set_if :: "'a option \<Rightarrow> ('a \<Rightarrow> 'r \<Rightarrow> 'r) \<Rightarrow> 'r \<Rightarrow> 'r" where
  "set_if a f r = (case a of None \<Rightarrow> r | Some v \<Rightarrow> f v r)"

definition assign_fields ::
  "string option \<Rightarrow> int option \<Rightarrow> json option \<Rightarrow> string option \<Rightarrow> string option
     \<Rightarrow> media_task \<Rightarrow> media_task" where
  "assign_fields st pr out err th row =
     set_if th (\<lambda>v r. r\<lparr>thumbnail_path := Some v\<rparr>)
       (set_if err (\<lambda>v r. r\<lparr>error_message := Some v\<rparr>)
         (set_if out (\<lambda>v r. r\<lparr>outputs := v\<rparr>)
           (set_if pr (\<lambda>v r. r\<lparr>progress := v\<rparr>)
             (set_if st (\<lambda>v r. r\<lparr>status := v\<rparr>) row))))"

definition update_media_row ::
  "(string \<Rightarrow> uuid option) \<Rightarrow> state \<Rightarrow> string \<Rightarrow> string option \<Rightarrow> int option
     \<Rightarrow> json option \<Rightarrow> string option \<Rightarrow> string option \<Rightarrow> exn + state" where
  "update_media_row UUID s media_task_id st pr out err th =
     (case UUID media_task_id of
        None \<Rightarrow> Inl (ValueError ''badly formed hexadecimal UUID string'')
      | Some u \<Rightarrow>
          (case db_get (rows s) u of
             None \<Rightarrow> Inr s
           | Some row \<Rightarrow>
               (let row' = assign_fields st pr out err th row
                in Inr (log_event (Commit row') (s\<lparr>rows := db_put (rows s) row'\<rparr>)))))"

section \<open>Library functions the code calls\<close>

text \<open>
  \<open>pathlib\<close> on POSIX, over path strings in the normal form that \<open>str(Path(...))\<close>
  produces (every path the pipeline handles is such a string). \<open>name\<close> is the final
  component; \<open>suffix\<close> is \<open>name[i:]\<close> for \<open>i = name.rfind('.')\<close> when
  \<open>0 < i < len(name) - 1\<close> and the empty string otherwise; \<open>stem\<close> is the rest of
  the name; \<open>with_name\<close> raises on an empty name; \<open>/\<close> appends a component.
\<close>

definition path_name :: "path \<Rightarrow> string" where
  "path_name p = rev (takeWhile (\<lambda>c. c \<noteq> CHR ''/'') (rev p))"

definition rfind_dot :: "string \<Rightarrow> nat option" where
  "rfind_dot n =
     (if CHR ''.'' \<in> set n
      then Some (length n - 1 - length (takeWhile (\<lambda>c. c \<noteq> CHR ''.'') (rev n)))
      else None)"

definition suffix :: "path \<Rightarrow> string" where
  "suffix p =
     (let n = path_name p
      in case rfind_dot n of
           None \<Rightarrow> []
         | Some i \<Rightarrow> if 0 < i \<and> i < length n - 1 then drop i n else [])"

definition stem :: "path \<Rightarrow> string" where
  "stem p =
     (let n = path_name p
      in case rfind_dot n of
           None \<Rightarrow> n
         | Some i \<Rightarrow> if 0 < i \<and> i < length n - 1 then take i n else n)"

definition with_name :: "path \<Rightarrow> string \<Rightarrow> exn + path" where
  "with_name p n =
     (if path_name p = [] then Inl (ValueError (p @ '' has an empty name''))
      else Inr (rev (dropWhile (\<lambda>c. c \<noteq> CHR ''/'') (rev p)) @ n))"

definition joinpath :: "path \<Rightarrow> string \<Rightarrow> path" where
  "joinpath p q =
     (if q = [] then p
      else if hd q = CHR ''/'' then q
      else if p = [] \<or> p = ''.'' then q
      else if last p = CHR ''/'' then p @ q
      else p @ ''/'' @ q)"

text \<open>
  A \<open>string\<close> holds the UTF-8 bytes of a Python \<open>str\<close>; the byte of \<open>.\<close> and of \<open>/\<close>
  occurs in no other character's encoding, so the functions above cut at the same
  places as \<open>pathlib\<close>. \<open>str.lower\<close> follows the Unicode case mapping, which is the
  interpreter's own table: it is a parameter \<open>lower\<close> of every function that reaches
  \<open>_file_kind\<close>, and nothing is assumed about it.
\<close>

text \<open>
  Python floats are IEEE 754 doubles: every operation returns the exact result
  rounded to 53 significant bits, ties to even. The values the resize computes are far
  from the ends of the exponent range, so the exponent is not bounded here.
  \<open>floor_log2 x\<close> is the exponent of \<open>x > 0\<close>, found from the bit lengths of numerator
  and denominator.
\<close>

definition pow2 :: "int \<Rightarrow> rat" where
  "pow2 k = (if 0 \<le> k then 2 ^ nat k else 1 / 2 ^ nat (- k))"

definition floor_log2 :: "rat \<Rightarrow> int" where
  "floor_log2 x =
     (let (p, q) = quotient_of x; k = bitlen p - bitlen q
      in if pow2 k \<le> x then k else k - 1)"

definition round_half_even :: "rat \<Rightarrow> int" where
  "round_half_even x =
     (let f = \<lfloor>x\<rfloor>; d = x - of_int f
      in if d < 1 / 2 then f else if 1 / 2 < d then f + 1 else if even f then f else f + 1)"

definition float_round :: "rat \<Rightarrow> rat" where
  "float_round x =
     (if x = 0 then 0
      else let ulp = pow2 (floor_log2 \<bar>x\<bar> - 52)
           in sgn x * of_int (round_half_even (\<bar>x\<bar> / ulp)) * ulp)"

definition float_of_int :: "int \<Rightarrow> rat" where
  "float_of_int n = float_round (of_int n)"

definition float_div :: "rat \<Rightarrow> rat \<Rightarrow> exn + rat" where
  "float_div a b =
     (if b = 0 then Inl (ZeroDivisionError ''float division by zero'')
      else Inr (float_round (a / b)))"

definition float_mul :: "rat \<Rightarrow> rat \<Rightarrow> rat" where
  "float_mul a b = float_round (a * b)"

text \<open>\<open>int(x)\<close> on a float truncates toward zero.\<close>

definition int_of_float :: "rat \<Rightarrow> int" where
  "int_of_float x = (if 0 \<le> x then \<lfloor>x\<rfloor> else \<lceil>x\<rceil>)"

section \<open>Configuration and environment\<close>

text \<open>\<open>class Settings\<close> (\<open>config.py\<close>), the fields the modelled code reads, and their defaults.\<close>

record settings =
  media_root :: string
  max_active_tasks_per_user :: int
  s3_enabled :: bool
  s3_bucket :: string
  s3_public_base_url :: string

definition default_settings :: settings where
  "default_settings =
     \<lparr>media_root = ''/tmp/media'', max_active_tasks_per_user = 3, s3_enabled = True,
      s3_bucket = ''media'', s3_public_base_url = ''http://localhost:9000''\<rparr>"


definition media_output_dir :: "settings \<Rightarrow> path" where
  "media_output_dir cfg = joinpath (media_root cfg) ''output''"

definition media_thumb_dir :: "settings \<Rightarrow> path" where
  "media_thumb_dir cfg = joinpath (media_root cfg) ''thumb''"

text \<open>
  What the outside answers during one execution of a task body: the file system
  (\<open>Path.exists\<close>, \<open>stat().st_size\<close>), Pillow opening an image (its width and height, or
  the exception it raises), Pillow transforming the opened image and saving the result
  under a path (\<open>pil_write\<close>: the exception that the calls between \<open>Image.open\<close> and the
  end of \<open>save\<close> raise, if any; a \<open>save\<close> that raises leaves no usable file), the return
  code of an \<open>ffmpeg\<close> command line, the object store's \<open>upload_file\<close> (the exception it
  raises, if any), and the random number that jitters a retry.
\<close>

record env =
  path_exists :: "path \<Rightarrow> bool"
  st_size :: "path \<Rightarrow> nat"
  image_open :: "path \<Rightarrow> exn + (nat \<times> nat)"
  pil_write :: "path \<Rightarrow> content \<Rightarrow> exn option"
  ffmpeg :: "string list \<Rightarrow> int"
  upload_file :: "path \<Rightarrow> string \<Rightarrow> string \<Rightarrow> exn option"
  random :: nat

section \<open>The pipeline context\<close>

text \<open>
  The context is a dictionary that the stages fill in; a key that is not there yet is
  \<open>None\<close>, and reading it raises \<open>KeyError\<close>. The entries of \<open>converted\<close> and
  \<open>watermarked\<close> are \<open>{label, path}\<close>, those of \<open>uploaded\<close> are \<open>{label, url, path}\<close>.
  The key \<open>thumbnail_path\<close> is the field \<open>ctx_thumbnail_path\<close>, the row having a column
  of the same name.
\<close>

record item =
  label :: string
  path :: string

record uploaded_item = item +
  url :: string

record ctx =
  media_task_id :: string
  input_path :: string
  kind :: "string option"
  size_bytes :: "nat option"
  ctx_thumbnail_path :: "string option"
  converted :: "item list option"
  watermarked :: "item list option"
  uploaded :: "uploaded_item list option"
  thumbnail_url :: "string option"

definition initial_ctx :: "string \<Rightarrow> path \<Rightarrow> ctx" where
  "initial_ctx mid ip =
     \<lparr>media_task_id = mid, input_path = ip, kind = None, size_bytes = None,
      ctx_thumbnail_path = None, converted = None, watermarked = None, uploaded = None,
      thumbnail_url = None\<rparr>"

definition lookup :: "string \<Rightarrow> 'a option \<Rightarrow> exn + 'a" where
  "lookup key v = (case v of None \<Rightarrow> Inl (KeyError key) | Some x \<Rightarrow> Inr x)"

section \<open>The pipeline stages (\<open>tasks.py\<close>)\<close>

text \<open>
  Each task body takes the environment of this execution, the state and the context
  and returns the state it leaves and either the exception it raised or its result.
  \<open>_ensure_dirs\<close> only creates the three media directories and is left out;
  \<open>_file_kind\<close> is \<open>file_kind\<close>. Uploads to the object store are not recorded in
  the trace.
\<close>

definition file_kind :: "(string \<Rightarrow> string) \<Rightarrow> path \<Rightarrow> exn + string" where
  "file_kind lower p =
     (let ext = lower (suffix p)
      in if ext \<in> set [''.jpg'', ''.jpeg'', ''.png'', ''.webp''] then Inr ''image''
         else if ext \<in> set [''.mp4'', ''.mov'', ''.mkv'', ''.webm''] then Inr ''video''
         else Inl (ValueError (''Unsupported media format: '' @ ext)))"

definition validate_media ::
  "(string \<Rightarrow> uuid option) \<Rightarrow> (string \<Rightarrow> string) \<Rightarrow> env \<Rightarrow> state \<Rightarrow> ctx \<Rightarrow> state \<times> (exn + ctx)" where
  "validate_media UUID lower e s c =
     (let ip = input_path c
      in if \<not> path_exists e ip then (s, Inl (ValueError ''Uploaded source file does not exist''))
         else case file_kind lower ip of
                Inl x \<Rightarrow> (s, Inl x)
              | Inr k \<Rightarrow>
                  (let sz = st_size e ip
                   in if sz = 0 then (s, Inl (ValueError ''Uploaded file is empty''))
                      else (let c' = c\<lparr>kind := Some k, size_bytes := Some sz\<rparr>
                            in case update_media_row UUID s (media_task_id c')
                                      (Some ''processing'') (Some 10) None None None of
                                 Inl x \<Rightarrow> (s, Inl x)
                               | Inr s' \<Rightarrow>
                                   (log_event (Update_state ''PROGRESS'' 10 ''validate'') s',
                                    Inr c'))))"

definition generate_thumbnail ::
  "(string \<Rightarrow> uuid option) \<Rightarrow> settings \<Rightarrow> env \<Rightarrow> state \<Rightarrow> ctx \<Rightarrow> state \<times> (exn + ctx)" where
  "generate_thumbnail UUID cfg e s c =
     (let source = input_path c;
          thumb_path = joinpath (media_thumb_dir cfg) (stem source @ ''_thumb.jpg'')
      in case lookup ''kind'' (kind c) of
           Inl x \<Rightarrow> (s, Inl x)
         | Inr k \<Rightarrow>
             (case (if k = ''image''
                    then (case image_open e source of
                            Inl x \<Rightarrow> Inl x
                          | Inr dims \<Rightarrow>
                              (case pil_write e thumb_path (PIL_thumbnail source) of
                                 Some x \<Rightarrow> Inl x
                               | None \<Rightarrow>
                                   Inr (log_event
                                          (Written thumb_path (PIL_thumbnail source)) s)))
                    else (let cmd = [''ffmpeg'', ''-y'', ''-i'', source, ''-ss'', ''00:00:01'',
                                     ''-frames:v'', ''1'', thumb_path]
                          in if ffmpeg e cmd \<noteq> 0
                             then Inl (TransientProcessingError
                                         ''Failed to generate video thumbnail'')
                             else Inr (log_event (Written thumb_path (Ffmpeg_output cmd)) s))) of
                Inl x \<Rightarrow> (s, Inl x)
              | Inr s1 \<Rightarrow>
                  (let c' = c\<lparr>ctx_thumbnail_path := Some thumb_path\<rparr>
                   in case update_media_row UUID s1 (media_task_id c') None (Some 25) None None
                             (Some thumb_path) of
                        Inl x \<Rightarrow> (s1, Inl x)
                      | Inr s2 \<Rightarrow>
                          (log_event (Update_state ''PROGRESS'' 25 ''thumbnail'') s2, Inr c'))))"

text \<open>Decimal digits of a number, for \<open>f"scale={width}:-2"\<close>.\<close>

fun str_nat :: "nat \<Rightarrow> string" where
  "str_nat n =
     (if n < 10 then [char_of (48 + n)] else str_nat (n div 10) @ [char_of (48 + n mod 10)])"

declare str_nat.simps [simp del]

definition resolutions :: "(string \<times> nat) list" where
  "resolutions = [(''1080p'', 1920), (''720p'', 1280), (''480p'', 854)]"

text \<open>
  The height of a resized image: \<open>ratio = width / float(img.width)\<close>, then
  \<open>max(1, int(img.height * ratio))\<close>.
\<close>

definition resize_height :: "nat \<Rightarrow> nat \<Rightarrow> nat \<Rightarrow> exn + int" where
  "resize_height width img_width img_height =
     (case float_div (float_of_int (int width)) (float_of_int (int img_width)) of
        Inl x \<Rightarrow> Inl x
      | Inr ratio \<Rightarrow>
          Inr (max 1 (int_of_float (float_mul (float_of_int (int img_height)) ratio))))"

text \<open>The loop of \<open>convert_resolutions\<close> over the remaining resolutions.\<close>

fun convert_loop ::
  "settings \<Rightarrow> env \<Rightarrow> ctx \<Rightarrow> (string \<times> nat) list \<Rightarrow> state \<Rightarrow> item list
     \<Rightarrow> state \<times> (exn + item list)" where
  "convert_loop cfg e c [] s conv = (s, Inr conv)"
| "convert_loop cfg e c ((lbl, width) # rest) s conv =
     (let source = input_path c;
          out_name = stem source @ ''_'' @ lbl @ suffix source;
          out_path = joinpath (media_output_dir cfg) out_name
      in case lookup ''kind'' (kind c) of
           Inl x \<Rightarrow> (s, Inl x)
         | Inr k \<Rightarrow>
             if k = ''image''
             then (case image_open e source of
                     Inl x \<Rightarrow> (s, Inl x)
                   | Inr (iw, ih) \<Rightarrow>
                       (case resize_height width iw ih of
                          Inl x \<Rightarrow> (s, Inl x)
                        | Inr height \<Rightarrow>
                            (case pil_write e out_path
                                    (PIL_resize source width (nat height)) of
                               Some x \<Rightarrow> (s, Inl x)
                             | None \<Rightarrow>
                                 convert_loop cfg e c rest
                                   (log_event
                                      (Written out_path
                                         (PIL_resize source width (nat height))) s)
                                   (conv @ [\<lparr>label = lbl, path = out_path\<rparr>]))))
             else (let cmd = [''ffmpeg'', ''-y'', ''-i'', source, ''-vf'',
                              ''scale='' @ str_nat width @ '':-2'', ''-c:a'', ''copy'', out_path]
                   in if ffmpeg e cmd \<noteq> 0
                      then (s, Inl (TransientProcessingError (''Failed to convert '' @ lbl)))
                      else convert_loop cfg e c rest
                             (log_event (Written out_path (Ffmpeg_output cmd)) s)
                             (conv @ [\<lparr>label = lbl, path = out_path\<rparr>])))"

definition convert_resolutions ::
  "(string \<Rightarrow> uuid option) \<Rightarrow> settings \<Rightarrow> env \<Rightarrow> state \<Rightarrow> ctx \<Rightarrow> state \<times> (exn + ctx)" where
  "convert_resolutions UUID cfg e s c =
     (case convert_loop cfg e c resolutions s [] of
        (s1, Inl x) \<Rightarrow> (s1, Inl x)
      | (s1, Inr conv) \<Rightarrow>
          (let c' = c\<lparr>converted := Some conv\<rparr>
           in case update_media_row UUID s1 (media_task_id c') None (Some 55) None None None of
                Inl x \<Rightarrow> (s1, Inl x)
              | Inr s2 \<Rightarrow> (log_event (Update_state ''PROGRESS'' 55 ''convert'') s2, Inr c')))"

definition watermark_text :: string where
  "watermark_text = ''Celery Demo''"

definition drawtext_filter :: string where
  "drawtext_filter =
     ''drawtext=text='' @ [CHR 0x27] @ ''Celery Demo'' @ [CHR 0x27]
       @ '':x=20:y=20:fontcolor=white:fontsize=24:box=1:boxcolor=black@0.4''"

fun watermark_loop ::
  "env \<Rightarrow> ctx \<Rightarrow> item list \<Rightarrow> state \<Rightarrow> item list \<Rightarrow> state \<times> (exn + item list)" where
  "watermark_loop e c [] s wm = (s, Inr wm)"
| "watermark_loop e c (it # rest) s wm =
     (let src = path it
      in case with_name src (stem src @ ''_wm'' @ suffix src) of
           Inl x \<Rightarrow> (s, Inl x)
         | Inr dst \<Rightarrow>
             (case lookup ''kind'' (kind c) of
                Inl x \<Rightarrow> (s, Inl x)
              | Inr k \<Rightarrow>
                  if k = ''image''
                  then (case image_open e src of
                          Inl x \<Rightarrow> (s, Inl x)
                        | Inr dims \<Rightarrow>
                            (case pil_write e dst (PIL_watermark src watermark_text) of
                               Some x \<Rightarrow> (s, Inl x)
                             | None \<Rightarrow>
                                 watermark_loop e c rest
                                   (log_event
                                      (Written dst (PIL_watermark src watermark_text)) s)
                                   (wm @ [\<lparr>label = label it, path = dst\<rparr>])))
                  else (let cmd = [''ffmpeg'', ''-y'', ''-i'', src, ''-vf'', drawtext_filter, dst]
                        in if ffmpeg e cmd \<noteq> 0
                           then (s, Inl (TransientProcessingError ''Failed to watermark video''))
                           else watermark_loop e c rest
                                  (log_event (Written dst (Ffmpeg_output cmd)) s)
                                  (wm @ [\<lparr>label = label it, path = dst\<rparr>]))))"

definition apply_watermark ::
  "(string \<Rightarrow> uuid option) \<Rightarrow> env \<Rightarrow> state \<Rightarrow> ctx \<Rightarrow> state \<times> (exn + ctx)" where
  "apply_watermark UUID e s c =
     (case lookup ''converted'' (converted c) of
        Inl x \<Rightarrow> (s, Inl x)
      | Inr conv \<Rightarrow>
          (case watermark_loop e c conv s [] of
             (s1, Inl x) \<Rightarrow> (s1, Inl x)
           | (s1, Inr wm) \<Rightarrow>
               (let c' = c\<lparr>watermarked := Some wm\<rparr>
                in case update_media_row UUID s1 (media_task_id c') None (Some 75) None None
                          None of
                     Inl x \<Rightarrow> (s1, Inl x)
                   | Inr s2 \<Rightarrow>
                       (log_event (Update_state ''PROGRESS'' 75 ''watermark'') s2, Inr c'))))"

text \<open>
  \<open>upload_file_to_storage\<close> (\<open>storage.py\<close>): without S3 the local path; otherwise the
  public URL when \<open>upload_file\<close> returns, the local path when it raises
  \<open>BotoCoreError\<close> or \<open>ClientError\<close>, and any other exception goes through.
  \<open>get_s3_client\<close> builds the client from the settings without sending a request and
  is taken to return.
\<close>

definition upload_file_to_storage :: "settings \<Rightarrow> env \<Rightarrow> path \<Rightarrow> string \<Rightarrow> exn + string" where
  "upload_file_to_storage cfg e p object_key =
     (if \<not> s3_enabled cfg then Inr p
      else case upload_file e p (s3_bucket cfg) object_key of
             None \<Rightarrow> Inr (s3_public_base_url cfg @ ''/'' @ s3_bucket cfg @ ''/'' @ object_key)
           | Some x \<Rightarrow>
               (case x of
                  BotoCoreError m \<Rightarrow> Inr p
                | ClientError m \<Rightarrow> Inr p
                | _ \<Rightarrow> Inl x))"

fun upload_loop ::
  "settings \<Rightarrow> env \<Rightarrow> string \<Rightarrow> item list \<Rightarrow> uploaded_item list \<Rightarrow> exn + uploaded_item list" where
  "upload_loop cfg e mid [] up = Inr up"
| "upload_loop cfg e mid (it # rest) up =
     (let p = path it; object_key = mid @ ''/'' @ path_name p
      in case upload_file_to_storage cfg e p object_key of
           Inl x \<Rightarrow> Inl x
         | Inr u \<Rightarrow> upload_loop cfg e mid rest (up @ [\<lparr>label = label it, path = p, url = u\<rparr>]))"

definition upload_outputs ::
  "(string \<Rightarrow> uuid option) \<Rightarrow> settings \<Rightarrow> env \<Rightarrow> state \<Rightarrow> ctx \<Rightarrow> state \<times> (exn + ctx)" where
  "upload_outputs UUID cfg e s c =
     (let mid = media_task_id c
      in case lookup ''watermarked'' (watermarked c) of
           Inl x \<Rightarrow> (s, Inl x)
         | Inr wm \<Rightarrow>
             (case upload_loop cfg e mid wm [] of
                Inl x \<Rightarrow> (s, Inl x)
              | Inr up \<Rightarrow>
                  (case lookup ''thumbnail_path'' (ctx_thumbnail_path c) of
                     Inl x \<Rightarrow> (s, Inl x)
                   | Inr tp \<Rightarrow>
                       (case upload_file_to_storage cfg e tp (mid @ ''/'' @ path_name tp) of
                          Inl x \<Rightarrow> (s, Inl x)
                        | Inr thumb_url \<Rightarrow>
                            (let c' = c\<lparr>uploaded := Some up, thumbnail_url := Some thumb_url\<rparr>
                             in case update_media_row UUID s (media_task_id c') None (Some 90)
                                       None None None of
                                  Inl x \<Rightarrow> (s, Inl x)
                                | Inr s1 \<Rightarrow>
                                    (log_event (Update_state ''PROGRESS'' 90 ''upload'') s1,
                                     Inr c'))))))"

definition variant_json :: "uploaded_item \<Rightarrow> json" where
  "variant_json x = JObject [(''label'', JString (label x)), (''url'', JString (url x))]"

definition finalize_success ::
  "(string \<Rightarrow> uuid option) \<Rightarrow> env \<Rightarrow> state \<Rightarrow> ctx \<Rightarrow> state \<times> (exn + json)" where
  "finalize_success UUID e s c =
     (case lookup ''thumbnail_url'' (thumbnail_url c) of
        Inl x \<Rightarrow> (s, Inl x)
      | Inr tu \<Rightarrow>
          (case lookup ''uploaded'' (uploaded c) of
             Inl x \<Rightarrow> (s, Inl x)
           | Inr up \<Rightarrow>
               (let outs = JObject [(''thumbnail'', JString tu),
                                    (''variants'', JArray (map variant_json up))]
                in case update_media_row UUID s (media_task_id c) (Some ''completed'')
                          (Some 100) (Some outs) None None of
                     Inl x \<Rightarrow> (s, Inl x)
                   | Inr s1 \<Rightarrow> (log_event (Update_state ''SUCCESS'' 100 ''done'') s1, Inr outs))))"

section \<open>Failure handling and the chain (\<open>tasks.py\<close>)\<close>


fun str_exn :: "exn \<Rightarrow> string" where
  "str_exn (ValueError m) = m"
| "str_exn (KeyError k) = [CHR 0x27] @ k @ [CHR 0x27]"
| "str_exn (ZeroDivisionError m) = m"
| "str_exn (OSError m) = m"
| "str_exn (TransientProcessingError m) = m"
| "str_exn (BotoCoreError m) = m"
| "str_exn (ClientError m) = m"
| "str_exn (S3UploadFailedError m) = m"
| "str_exn (IntegrityError m) = m"
| "str_exn (HTTPException code detail) = str_nat code @ '': '' @ detail"

text \<open>
  \<open>BaseMediaTask.on_failure\<close>: record the failure on the row named by the context.
  An exception raised in the handler is logged by Celery and changes nothing.
\<close>

definition on_failure :: "(string \<Rightarrow> uuid option) \<Rightarrow> exn \<Rightarrow> ctx \<Rightarrow> state \<Rightarrow> state" where
  "on_failure UUID exc c s =
     (let mid = media_task_id c
      in if mid \<noteq> []
         then (case update_media_row UUID s mid (Some ''failed'') None None
                      (Some (str_exn exc)) None of
                 Inl x \<Rightarrow> s
               | Inr s' \<Rightarrow> s')
         else s)"

text \<open>
  The class attributes of \<open>BaseMediaTask\<close>, with Celery's meaning: an exception in
  \<open>autoretry_for\<close> calls \<open>self.retry\<close>, which sends the task again with
  \<open>request.retries + 1\<close> unless that exceeds \<open>max_retries\<close>, in which case the
  exception is raised and the task fails. The countdown of a retry is
  \<open>get_exponential_backoff_interval(1, request.retries, retry_backoff_max, retry_jitter)\<close>.
\<close>

fun autoretry_for :: "exn \<Rightarrow> bool" where
  "autoretry_for (TransientProcessingError m) = True"
| "autoretry_for x = False"

definition retry_backoff :: nat where
  "retry_backoff = 1"

definition retry_backoff_max :: nat where
  "retry_backoff_max = 60"

definition retry_jitter :: bool where
  "retry_jitter = True"

definition max_retries :: nat where
  "max_retries = 5"

definition get_exponential_backoff_interval :: "nat \<Rightarrow> nat \<Rightarrow> nat \<Rightarrow> bool \<Rightarrow> nat \<Rightarrow> nat" where
  "get_exponential_backoff_interval factor retries maximum full_jitter rnd =
     (let countdown = min maximum (factor * 2 ^ retries)
      in if full_jitter then rnd mod (countdown + 1) else countdown)"

text \<open>
  One task of the chain, from its first execution to success or failure.
  \<open>envs r\<close> is the environment of the execution with \<open>request.retries = r\<close>.
\<close>

function BaseMediaTask_call ::
  "(string \<Rightarrow> uuid option) \<Rightarrow> string \<Rightarrow> (env \<Rightarrow> state \<Rightarrow> ctx \<Rightarrow> state \<times> (exn + 'r))
     \<Rightarrow> (nat \<Rightarrow> env) \<Rightarrow> nat \<Rightarrow> state \<Rightarrow> ctx \<Rightarrow> state \<times> (exn + 'r)" where
  "BaseMediaTask_call UUID name body envs retries s c =
     (case body (envs retries) (log_event (Invoked name retries) s) c of
        (s1, Inr r) \<Rightarrow> (s1, Inr r)
      | (s1, Inl exc) \<Rightarrow>
          if autoretry_for exc \<and> \<not> max_retries < retries + 1
          then BaseMediaTask_call UUID name body envs (retries + 1)
                 (log_event
                    (Retry name
                       (get_exponential_backoff_interval retry_backoff retries
                          retry_backoff_max retry_jitter (random (envs retries))))
                    s1)
                 c
          else (on_failure UUID exc c s1, Inl exc))"
  by pat_completeness auto
termination
  by (relation "measure (\<lambda>(UUID, name, body, envs, retries, s, c). max_retries + 1 - retries)")
     auto

declare BaseMediaTask_call.simps [simp del]

text \<open>A chain runs the next task on the result of the previous one and stops at a failure.\<close>

definition then_task ::
  "state \<times> (exn + 'a) \<Rightarrow> (state \<Rightarrow> 'a \<Rightarrow> state \<times> (exn + 'b)) \<Rightarrow> state \<times> (exn + 'b)" where
  "then_task r f = (case r of (s, Inl x) \<Rightarrow> (s, Inl x) | (s, Inr a) \<Rightarrow> f s a)"

text \<open>
  The chain that \<open>run_media_pipeline\<close> builds, as the workers execute it. \<open>world i r\<close>
  is the environment of the execution with \<open>request.retries = r\<close> of the chain's task
  number \<open>i\<close>.
\<close>

definition execute_chain ::
  "(string \<Rightarrow> uuid option) \<Rightarrow> (string \<Rightarrow> string) \<Rightarrow> settings \<Rightarrow> (nat \<Rightarrow> nat \<Rightarrow> env) \<Rightarrow> state \<Rightarrow> ctx
     \<Rightarrow> state \<times> (exn + json)" where
  "execute_chain UUID lower cfg world s c0 =
     then_task
       (then_task
          (then_task
             (then_task
                (then_task
                   (BaseMediaTask_call UUID ''app.tasks.validate_media''
                      (validate_media UUID lower) (world 0) 0 s c0)
                   (BaseMediaTask_call UUID ''app.tasks.generate_thumbnail''
                      (generate_thumbnail UUID cfg) (world 1) 0))
                (BaseMediaTask_call UUID ''app.tasks.convert_resolutions''
                   (convert_resolutions UUID cfg) (world 2) 0))
             (BaseMediaTask_call UUID ''app.tasks.apply_watermark''
                (apply_watermark UUID) (world 3) 0))
          (BaseMediaTask_call UUID ''app.tasks.upload_outputs''
             (upload_outputs UUID cfg) (world 4) 0))
       (BaseMediaTask_call UUID ''app.tasks.finalize_success''
          (finalize_success UUID) (world 5) 0)"


section \<open>Admission (\<open>main.py\<close>)\<close>




section \<open>The status stream (\<open>main.py\<close>)\<close>

text \<open>
  \<open>task_updates\<close> polls once per second. What it meets at its \<open>n\<close>-th poll is given
  from outside: the table as other processes have left it, whether \<open>send_json\<close> still
  reaches the subscriber (otherwise it raises \<open>WebSocketDisconnect\<close>), and the state and
  \<open>info\<close> that the result backend reports for a Celery id.
\<close>

record poll =
  table :: "media_task list"
  connected :: bool
  async_result :: "string \<Rightarrow> string \<times> json"

datatype message =
    Error_message string
  | Payload string string int "string option" json "string option" "json option"

definition payload_of :: "(uuid \<Rightarrow> string) \<Rightarrow> poll \<Rightarrow> media_task \<Rightarrow> message" where
  "payload_of uuid_str p row =
     (let (celery_state, celery_meta) =
            (case celery_task_id row of
               None \<Rightarrow> (None, None)
             | Some h \<Rightarrow>
                 if h = [] then (None, None)
                 else (let (st, info) = async_result p h
                       in (Some st, case info of JObject kv \<Rightarrow> Some info | _ \<Rightarrow> None)))
      in Payload (uuid_str (task_id row)) (status row) (progress row) (error_message row)
           (outputs row) celery_state celery_meta)"

text \<open>
  The loop, from poll number \<open>n\<close>, for at most \<open>fuel\<close> polls. The result is what it
  sent in these polls and whether the handler has returned.
\<close>

fun task_updates ::
  "(uuid \<Rightarrow> string) \<Rightarrow> (nat \<Rightarrow> poll) \<Rightarrow> uuid \<Rightarrow> nat \<Rightarrow> nat \<Rightarrow> message list \<times> bool" where
  "task_updates uuid_str polls tid n 0 = ([], False)"
| "task_updates uuid_str polls tid n (Suc fuel) =
     (case db_get (table (polls n)) tid of
        None \<Rightarrow>
          if connected (polls n) then ([Error_message ''Task not found''], True)
          else ([], True)
      | Some row \<Rightarrow>
          if \<not> connected (polls n) then ([], True)
          else if status row \<in> set [''completed'', ''failed'']
               then ([payload_of uuid_str (polls n) row], True)
               else (let (sent, ended) = task_updates uuid_str polls tid (Suc n) fuel
                     in (payload_of uuid_str (polls n) row # sent, ended)))"

section \<open>Observations on traces and streams\<close>

text \<open>The progress values of the transactions committed in a trace, in order.\<close>

fun committed_progress :: "event list \<Rightarrow> int list" where
  "committed_progress [] = []"
| "committed_progress (Commit r # es) = progress r # committed_progress es"
| "committed_progress (ev # es) = committed_progress es"

text \<open>
  What poll number \<open>i\<close> of the status stream sends if it sends, and whether it is
  followed by another poll: the row is there, the subscriber is, and the status read is
  neither completed nor failed.
\<close>

definition snapshot_at :: "(uuid \<Rightarrow> string) \<Rightarrow> (nat \<Rightarrow> poll) \<Rightarrow> uuid \<Rightarrow> nat \<Rightarrow> message" where
  "snapshot_at uuid_str polls tid i =
     (case db_get (table (polls i)) tid of
        None \<Rightarrow> Error_message ''Task not found''
      | Some row \<Rightarrow> payload_of uuid_str (polls i) row)"

definition keeps_polling :: "(nat \<Rightarrow> poll) \<Rightarrow> uuid \<Rightarrow> nat \<Rightarrow> bool" where
  "keeps_polling polls tid i =
     (case db_get (table (polls i)) tid of
        None \<Rightarrow> False
      | Some row \<Rightarrow>
          connected (polls i) \<and> status row \<noteq> ''completed'' \<and> status row \<noteq> ''failed'')"

text \<open>The exceptions that \<open>upload_file_to_storage\<close> catches.\<close>

fun storage_error :: "exn \<Rightarrow> bool" where
  "storage_error (BotoCoreError m) = True"
| "storage_error (ClientError m) = True"
| "storage_error x = False"

text \<open>
  What a run has left behind: status, progress and error message of every row, the task
  executions in order, and the countdowns of the retries.
\<close>

fun invocations :: "event list \<Rightarrow> (string \<times> nat) list" where
  "invocations [] = []"
| "invocations (Invoked n r # es) = (n, r) # invocations es"
| "invocations (ev # es) = invocations es"

fun countdowns :: "event list \<Rightarrow> nat list" where
  "countdowns [] = []"
| "countdowns (Retry n d # es) = d # countdowns es"
| "countdowns (ev # es) = countdowns es"

definition run_summary ::
  "state \<Rightarrow> (string \<times> int \<times> string option) list \<times> (string \<times> nat) list \<times> nat list" where
  "run_summary s =
     (map (\<lambda>r. (status r, progress r, error_message r)) (rows s),
      invocations (trace s), countdowns (trace s))"

text \<open>Width and height of the resized images written in a trace, in order.\<close>

fun resized :: "event list \<Rightarrow> (nat \<times> nat) list" where
  "resized [] = []"
| "resized (Written p (PIL_resize src w h) # es) = (w, h) # resized es"
| "resized (ev # es) = resized es"

text \<open>
  The output height in the words of the specification:
  \<open>max(1, round(width * src_height / src_width))\<close>, rounding to the nearest integer
  (halves upwards).
\<close>

text \<open>
  \<open>variant_saves cfg e c lbl w h\<close>: in the environment \<open>e\<close>, \<open>img.resize((w, h))\<close> and the
  \<open>save\<close> of the result under the output path of the variant \<open>lbl\<close> raise nothing.
\<close>

definition variant_saves :: "settings \<Rightarrow> env \<Rightarrow> ctx \<Rightarrow> string \<Rightarrow> nat \<Rightarrow> int \<Rightarrow> bool" where
  "variant_saves cfg e c lbl w h =
     (pil_write e
        (joinpath (media_output_dir cfg)
           (stem (input_path c) @ ''_'' @ lbl @ suffix (input_path c)))
        (PIL_resize (input_path c) w (nat h)) = None)"

definition spec_out_height :: "nat \<Rightarrow> nat \<Rightarrow> nat \<Rightarrow> int" where
  "spec_out_height width src_width src_height =
     max 1 (round (of_nat width * of_nat src_height / of_nat src_width :: rat))"

section \<open>Example values\<close>

text \<open>A task id, a conversion that knows it, and rows and states for the concrete cases below.\<close>

definition example_mid :: string where
  "example_mid = ''6f1c2d3e-0000-4000-8000-000000000001''"

definition example_UUID :: "string \<Rightarrow> uuid option" where
  "example_UUID x = (if x = example_mid then Some 1 else None)"

text \<open>A case mapping that lowers the letters \<open>A\<close> to \<open>Z\<close> and keeps every other byte: what
  \<open>str.lower\<close> returns for an ASCII string.\<close>

definition lower_char :: "char \<Rightarrow> char" where
  "lower_char c =
     (if (65::nat) \<le> of_char c \<and> of_char c \<le> (90::nat)
      then char_of (of_char c + (32::nat)) else c)"

definition ascii_lower :: "string \<Rightarrow> string" where
  "ascii_lower s = map lower_char s"

definition completed_row :: media_task where
  "completed_row =
     \<lparr>task_id = 1, user_id = ''alice'', original_filename = ''clip.mp4'',
      status = ''completed'', progress = 100, celery_task_id = Some ''job-1'',
      source_path = ''/tmp/media/input/1_clip.mp4'',
      thumbnail_path = Some ''/tmp/media/thumb/1_clip_thumb.jpg'',
      outputs = JObject [(''thumbnail'', JString ''/tmp/media/thumb/1_clip_thumb.jpg''),
                         (''variants'', JArray [])],
      error_message = None\<rparr>"

definition completed_state :: state where
  "completed_state = \<lparr>rows = [completed_row], trace = []\<rparr>"

definition empty_state :: state where
  "empty_state = \<lparr>rows = [], trace = []\<rparr>"

definition example_uuid_str :: "uuid \<Rightarrow> string" where
  "example_uuid_str u =
     (if u = 1 then example_mid else ''00000000-0000-4000-8000-000000000000'')"

definition active_row :: "uuid \<Rightarrow> string \<Rightarrow> media_task" where
  "active_row i st =
     \<lparr>task_id = i, user_id = ''alice'', original_filename = ''a.png'', status = st,
      progress = 0, celery_task_id = None, source_path = [], thumbnail_path = None,
      outputs = JObject [], error_message = None\<rparr>"


definition working_env :: env where
  "working_env =
     \<lparr>path_exists = (\<lambda>p. True), st_size = (\<lambda>p. 2048), image_open = (\<lambda>p. Inr (1000, 500)),
      pil_write = (\<lambda>p x. None), ffmpeg = (\<lambda>cmd. 0), upload_file = (\<lambda>p b k. None),
      random = 7\<rparr>"

definition stale_row :: media_task where
  "stale_row =
     \<lparr>task_id = 1, user_id = ''alice'', original_filename = ''clip.mp4'',
      status = ''processing'', progress = 90, celery_task_id = Some ''job-1'',
      source_path = ''/tmp/media/input/1_clip.mp4'',
      thumbnail_path = Some ''/tmp/media/thumb/1_clip_thumb.jpg'',
      outputs = JObject [], error_message = Some ''Failed to convert 720p''\<rparr>"

definition published_ctx :: ctx where
  "published_ctx =
     (initial_ctx example_mid ''/tmp/media/input/1_clip.mp4'')
       \<lparr>kind := Some ''video'', size_bytes := Some 2048,
        ctx_thumbnail_path := Some ''/tmp/media/thumb/1_clip_thumb.jpg'',
        uploaded := Some [\<lparr>label = ''1080p'', path = ''/tmp/media/output/1_clip_1080p_wm.mp4'',
                           url = ''http://localhost:9000/media/m/1_clip_1080p_wm.mp4''\<rparr>],
        thumbnail_url := Some ''http://localhost:9000/media/m/1_clip_thumb.jpg''\<rparr>"

definition published_outputs :: json where
  "published_outputs =
     JObject [(''thumbnail'', JString ''http://localhost:9000/media/m/1_clip_thumb.jpg''),
              (''variants'',
               JArray [JObject [(''label'', JString ''1080p''),
                                (''url'',
                                 JString ''http://localhost:9000/media/m/1_clip_1080p_wm.mp4'')]])]"

definition example_polls :: "nat \<Rightarrow> poll" where
  "example_polls n =
     \<lparr>table = (if n = 0 then [active_row 1 ''queued'']
               else if n = 1 then [active_row 1 ''processing'']
               else [completed_row]),
      connected = True,
      async_result = (\<lambda>h. (''PROGRESS'', JObject [(''progress'', JInt 10)]))\<rparr>"

definition queued_state :: state where
  "queued_state = \<lparr>rows = [active_row 1 ''queued''], trace = []\<rparr>"

definition photo_path :: path where
  "photo_path = ''/tmp/media/input/6f1c2d3e-0000-4000-8000-000000000001_photo.PNG''"

definition clip_path :: path where
  "clip_path = ''/tmp/media/input/6f1c2d3e-0000-4000-8000-000000000001_clip.mp4''"

definition notes_path :: path where
  "notes_path = ''/tmp/media/input/6f1c2d3e-0000-4000-8000-000000000001_notes.txt''"

text \<open>A world in which everything works, one in which every file is empty, and one in
  which \<open>ffmpeg\<close> fails in the first \<open>k\<close> executions of the chain's task number \<open>j\<close>.\<close>

definition steady_world :: "nat \<Rightarrow> nat \<Rightarrow> env" where
  "steady_world i r = working_env"

definition empty_file_world :: "nat \<Rightarrow> nat \<Rightarrow> env" where
  "empty_file_world i r = working_env\<lparr>st_size := (\<lambda>p. 0)\<rparr>"

definition flaky_world :: "nat \<Rightarrow> nat \<Rightarrow> nat \<Rightarrow> nat \<Rightarrow> env" where
  "flaky_world j k i r =
     (if i = j \<and> r < k then working_env\<lparr>ffmpeg := (\<lambda>cmd. 1)\<rparr> else working_env)"


definition validated_ctx :: ctx where
  "validated_ctx =
     (initial_ctx example_mid clip_path)\<lparr>kind := Some ''video'', size_bytes := Some 2048\<rparr>"

definition clip_thumb :: path where
  "clip_thumb = ''/tmp/media/thumb/6f1c2d3e-0000-4000-8000-000000000001_clip_thumb.jpg''"

definition watermarked_ctx :: ctx where
  "watermarked_ctx =
     validated_ctx
       \<lparr>ctx_thumbnail_path := Some clip_thumb,
        watermarked :=
          Some [\<lparr>label = ''1080p'', path = ''/tmp/media/output/c_1080p_wm.mp4''\<rparr>,
                \<lparr>label = ''720p'', path = ''/tmp/media/output/c_720p_wm.mp4''\<rparr>,
                \<lparr>label = ''480p'', path = ''/tmp/media/output/c_480p_wm.mp4''\<rparr>]\<rparr>"

definition outage_env :: env where
  "outage_env =
     working_env
       \<lparr>upload_file :=
          (\<lambda>p b k. Some (BotoCoreError ''Could not connect to the endpoint URL''))\<rparr>"

text \<open>
  An object store that answers every \<open>PutObject\<close> with \<open>AccessDenied\<close>: \<open>boto3\<close>'s
  \<open>upload_file\<close> turns the client error of the transfer into \<open>S3UploadFailedError\<close>,
  a class derived from neither \<open>BotoCoreError\<close> nor \<open>ClientError\<close>.
\<close>

definition denied_message :: "path \<Rightarrow> string \<Rightarrow> string \<Rightarrow> string" where
  "denied_message p b k =
     ''Failed to upload '' @ p @ '' to '' @ b @ ''/'' @ k
     @ '': An error occurred (AccessDenied) when calling the PutObject operation: Access Denied''"

definition denied_env :: env where
  "denied_env =
     working_env\<lparr>upload_file := (\<lambda>p b k. Some (S3UploadFailedError (denied_message p b k)))\<rparr>"

definition denied_world :: "nat \<Rightarrow> nat \<Rightarrow> env" where
  "denied_world i r = denied_env"

definition photo_ctx :: ctx where
  "photo_ctx =
     (initial_ctx example_mid photo_path)\<lparr>kind := Some ''image'', size_bytes := Some 2048\<rparr>"

definition odd_photo_env :: env where
  "odd_photo_env = working_env\<lparr>image_open := (\<lambda>p. Inr (1000, 501))\<rparr>"

text \<open>An environment in which the disk is full once the first variant is written, and one
  in which no resized image can be saved (an image with an alpha channel under a JPEG
  file name).\<close>

definition full_disk_env :: env where
  "full_disk_env =
     working_env
       \<lparr>pil_write :=
          (\<lambda>p x. case x of
                   PIL_resize src w h \<Rightarrow>
                     if w = 1920 then None
                     else Some (OSError ''[Errno 28] No space left on device'')
                 | _ \<Rightarrow> None)\<rparr>"

definition alpha_jpeg_env :: env where
  "alpha_jpeg_env =
     working_env
       \<lparr>pil_write :=
          (\<lambda>p x. case x of
                   PIL_resize src w h \<Rightarrow> Some (OSError ''cannot write mode RGBA as JPEG'')
                 | _ \<Rightarrow> None)\<rparr>"

section \<open>Properties of the store update\<close>

lemma task_id_assign_fields [simp]:
  "task_id (assign_fields st pr out err th r) = task_id r"
  by (simp add: assign_fields_def set_if_def split: option.splits)

lemma db_get_task_id: "db_get rs u = Some r \<Longrightarrow> task_id r = u"
  unfolding db_get_def by (induction rs) (auto split: if_splits)

lemma db_get_db_put_same:
  "db_get rs u = Some r \<Longrightarrow> task_id r' = u \<Longrightarrow> db_get (db_put rs r') u = Some r'"
  unfolding db_get_def db_put_def by (induction rs) (auto split: if_splits)

lemma db_get_db_put_other:
  "task_id r' \<noteq> v \<Longrightarrow> db_get (db_put rs r') v = db_get rs v"
  unfolding db_get_def db_put_def by (induction rs) auto

lemma update_media_row_found:
  assumes "UUID mid = Some u" and "db_get (rows s) u = Some r"
  shows "update_media_row UUID s mid st pr out err th =
           Inr (log_event (Commit (assign_fields st pr out err th r))
                  (s\<lparr>rows := db_put (rows s) (assign_fields st pr out err th r)\<rparr>))"
  using assms by (simp add: update_media_row_def Let_def)

text \<open>The only exception of the update is the one of the conversion to a UUID.\<close>

lemma update_media_row_malformed_id:
  "UUID mid = None \<Longrightarrow>
     update_media_row UUID s mid st pr out err th
       = Inl (ValueError ''badly formed hexadecimal UUID string'')"
  by (simp add: update_media_row_def)

text \<open>
  C10. An update whose (well-formed) task id has no row returns silently: no
  exception, and the state, rows and trace, is the one it was called in.
\<close>

theorem C10_update_missing_row_is_silent:
  assumes "UUID mid = Some u" and "db_get (rows s) u = None"
  shows "update_media_row UUID s mid st pr out err th = Inr s"
  using assms by (simp add: update_media_row_def)

theorem C10_update_missing_row_is_silent_witness:
  "example_UUID example_mid = Some 1 \<and> db_get (rows empty_state) 1 = None \<and>
   update_media_row example_UUID empty_state example_mid (Some ''failed'') None None
     (Some ''boom'') None = Inr empty_state"
proof -
  have a: "example_UUID example_mid = Some 1"
    by (simp add: example_UUID_def)
  have b: "db_get (rows empty_state) 1 = None"
    by (simp add: db_get_def empty_state_def)
  show ?thesis
    using a b
      C10_update_missing_row_is_silent
        [where UUID = example_UUID and mid = example_mid and u = 1 and s = empty_state, OF a b]
    by simp
qed

text \<open>
  C1, as the specification states it, fails: a late \<open>validate\<close> checkpoint
  (\<open>status="processing", progress=10\<close>) replayed against a completed row is written
  and committed.
\<close>

theorem C1_terminal_row_is_overwritten:
  "update_media_row example_UUID completed_state example_mid (Some ''processing'') (Some 10)
     None None None
   = Inr \<lparr>rows = [completed_row\<lparr>status := ''processing'', progress := 10\<rparr>],
          trace = [Commit (completed_row\<lparr>status := ''processing'', progress := 10\<rparr>)]\<rparr>"
  by code_simp

text \<open>
  C1, amended. On a row whose stored status is completed or failed, the update still
  assigns every argument that is not \<open>None\<close> and commits; the fields whose argument is
  \<open>None\<close>, the fields it has no argument for and every other row are unchanged.
\<close>

theorem C1_update_on_terminal_row_assigns_given_fields:
  assumes "UUID mid = Some u" and "db_get (rows s) u = Some r"
    and "status r = ''completed'' \<or> status r = ''failed''"
  shows "\<exists>s'. update_media_row UUID s mid st pr out err th = Inr s'
           \<and> db_get (rows s') u =
               Some (r\<lparr>status := (case st of None \<Rightarrow> status r | Some v \<Rightarrow> v),
                       progress := (case pr of None \<Rightarrow> progress r | Some v \<Rightarrow> v),
                       outputs := (case out of None \<Rightarrow> outputs r | Some v \<Rightarrow> v),
                       error_message :=
                         (case err of None \<Rightarrow> error_message r | Some v \<Rightarrow> Some v),
                       thumbnail_path :=
                         (case th of None \<Rightarrow> thumbnail_path r | Some v \<Rightarrow> Some v)\<rparr>)
           \<and> (\<forall>v. v \<noteq> u \<longrightarrow> db_get (rows s') v = db_get (rows s) v)"
proof -
  let ?r' = "assign_fields st pr out err th r"
  have key: "task_id r = u"
    using assms(2) by (rule db_get_task_id)
  have upd: "update_media_row UUID s mid st pr out err th =
      Inr (log_event (Commit ?r') (s\<lparr>rows := db_put (rows s) ?r'\<rparr>))"
    using assms(1,2) by (rule update_media_row_found)
  have same: "db_get (db_put (rows s) ?r') u = Some ?r'"
    using assms(2) key by (simp add: db_get_db_put_same)
  have other: "\<forall>v. v \<noteq> u \<longrightarrow> db_get (db_put (rows s) ?r') v = db_get (rows s) v"
    using key by (simp add: db_get_db_put_other)
  have shape: "?r' = r\<lparr>status := (case st of None \<Rightarrow> status r | Some v \<Rightarrow> v),
                       progress := (case pr of None \<Rightarrow> progress r | Some v \<Rightarrow> v),
                       outputs := (case out of None \<Rightarrow> outputs r | Some v \<Rightarrow> v),
                       error_message :=
                         (case err of None \<Rightarrow> error_message r | Some v \<Rightarrow> Some v),
                       thumbnail_path :=
                         (case th of None \<Rightarrow> thumbnail_path r | Some v \<Rightarrow> Some v)\<rparr>"
    by (simp add: assign_fields_def set_if_def split: option.splits)
  show ?thesis
    using upd same other shape by (simp add: log_event_def)
qed

theorem C1_update_on_terminal_row_witness:
  "example_UUID example_mid = Some 1 \<and> db_get (rows completed_state) 1 = Some completed_row \<and>
   status completed_row = ''completed'' \<and>
   (\<exists>s'. update_media_row example_UUID completed_state example_mid (Some ''failed'') None None
            (Some ''Failed to watermark video'') None = Inr s'
        \<and> db_get (rows s') 1 =
            Some (completed_row\<lparr>status := ''failed'',
                                error_message := Some ''Failed to watermark video''\<rparr>))"
proof -
  have a: "example_UUID example_mid = Some 1"
    by (simp add: example_UUID_def)
  have b: "db_get (rows completed_state) 1 = Some completed_row"
    by (simp add: db_get_def completed_state_def completed_row_def)
  have c: "status completed_row = ''completed'' \<or> status completed_row = ''failed''"
    by (simp add: completed_row_def)
  show ?thesis
    using a b c
      C1_update_on_terminal_row_assigns_given_fields
        [where UUID = example_UUID and mid = example_mid and u = 1 and s = completed_state
           and r = completed_row and st = "Some ''failed''" and pr = None and out = None
           and err = "Some ''Failed to watermark video''" and th = None, OF a b c]
    by (auto simp add: completed_row_def)
qed


section \<open>Properties of the stages\<close>

lemma committed_progress_append [simp]:
  "committed_progress (xs @ ys) = committed_progress xs @ committed_progress ys"
  by (induction xs rule: committed_progress.induct) auto

lemma rows_log_event [simp]: "rows (log_event ev s) = rows s"
  by (simp add: log_event_def)

lemma trace_log_event [simp]: "trace (log_event ev s) = trace s @ [ev]"
  by (simp add: log_event_def)

lemma progress_assign_fields [simp]:
  "progress (assign_fields st (Some k) out err th r) = k"
  by (simp add: assign_fields_def set_if_def split: option.splits)

lemma status_assign_fields [simp]:
  "status (assign_fields (Some v) pr out err th r) = v"
  by (simp add: assign_fields_def set_if_def split: option.splits)

text \<open>What a checkpoint update does when the row is there.\<close>

lemma update_media_row_checkpoint:
  assumes "update_media_row UUID s mid st (Some k) out err th = Inr t"
    and "UUID mid = Some u" and "db_get (rows s) u = Some r"
  shows "committed_progress (trace t) = committed_progress (trace s) @ [k]
         \<and> db_get (rows t) u = Some (assign_fields st (Some k) out err th r)"
proof -
  have "t = log_event (Commit (assign_fields st (Some k) out err th r))
              (s\<lparr>rows := db_put (rows s) (assign_fields st (Some k) out err th r)\<rparr>)"
    using assms by (simp add: update_media_row_def Let_def)
  moreover have "task_id r = u" using assms(3) by (rule db_get_task_id)
  ultimately show ?thesis
    using assms(3) by (simp add: db_get_db_put_same)
qed



lemma update_media_row_fails:
  "update_media_row UUID s mid st pr out err th = Inl x \<Longrightarrow> UUID mid = None"
  by (auto simp add: update_media_row_def Let_def split: option.splits)















section \<open>Finalize\<close>

text \<open>
  C7. After a successful finalize the row has status completed, progress 100 and the
  assembled outputs, but the error message is the one that was stored before:
  \<open>finalize_success\<close> passes \<open>error_message=None\<close>, and \<open>update_media_row\<close> skips
  every argument that is \<open>None\<close>. Here the row carries the message of an earlier
  failed delivery.
\<close>

theorem C7_finalize_leaves_error_message:
  "finalize_success example_UUID working_env \<lparr>rows = [stale_row], trace = []\<rparr> published_ctx
   = (\<lparr>rows = [stale_row\<lparr>status := ''completed'', progress := 100,
                            outputs := published_outputs\<rparr>],
       trace = [Commit (stale_row\<lparr>status := ''completed'', progress := 100,
                                  outputs := published_outputs\<rparr>),
                Update_state ''SUCCESS'' 100 ''done'']\<rparr>,
      Inr published_outputs)
   \<and> error_message (stale_row\<lparr>status := ''completed'', progress := 100,
                                outputs := published_outputs\<rparr>)
       = Some ''Failed to convert 720p''"
  by code_simp

section \<open>Admission\<close>



section \<open>The status stream\<close>

lemma task_updates_stop:
  assumes "\<not> keeps_polling polls tid n"
  shows "task_updates uuid_str polls tid n (Suc fuel) =
           (if connected (polls n) then [snapshot_at uuid_str polls tid n] else [], True)"
  using assms
  by (auto simp add: keeps_polling_def snapshot_at_def split: option.splits)

lemma task_updates_go:
  assumes "keeps_polling polls tid n"
  shows "task_updates uuid_str polls tid n (Suc fuel) =
           (snapshot_at uuid_str polls tid n # fst (task_updates uuid_str polls tid (Suc n) fuel),
            snd (task_updates uuid_str polls tid (Suc n) fuel))"
  using assms
  by (auto simp add: keeps_polling_def snapshot_at_def split: option.splits prod.splits)

lemma task_updates_run:
  assumes "\<forall>i<k. keeps_polling polls tid (n + i)" and "\<not> keeps_polling polls tid (n + k)"
    and "k < fuel"
  shows "task_updates uuid_str polls tid n fuel =
           (map (snapshot_at uuid_str polls tid) [n..<n + k]
              @ (if connected (polls (n + k)) then [snapshot_at uuid_str polls tid (n + k)]
                 else []),
            True)"
  using assms
proof (induction k arbitrary: n fuel)
  case 0
  then obtain f where f: "fuel = Suc f" by (cases fuel) auto
  from 0 show ?case unfolding f by (simp add: task_updates_stop del: task_updates.simps)
next
  case (Suc k)
  then obtain f where f: "fuel = Suc f" and kf: "k < f" by (cases fuel) auto
  have go: "keeps_polling polls tid n" using Suc.prems(1) by force
  have later: "\<forall>i<k. keeps_polling polls tid (Suc n + i)"
    using Suc.prems(1) by (metis add_Suc_shift Suc_less_eq)
  have stop: "\<not> keeps_polling polls tid (Suc n + k)" using Suc.prems(2) by simp
  have ih: "task_updates uuid_str polls tid (Suc n) f =
           (map (snapshot_at uuid_str polls tid) [Suc n..<Suc n + k]
              @ (if connected (polls (Suc n + k))
                 then [snapshot_at uuid_str polls tid (Suc n + k)] else []),
            True)"
    using Suc.IH [OF later stop kf] .
  have "[n..<n + Suc k] = n # [Suc n..<Suc n + k]"
    by (simp add: upt_conv_Cons)
  then show ?case
    unfolding f using ih go by (simp add: task_updates_go del: task_updates.simps)
qed

text \<open>
  C9. A subscription whose task id does not resolve at the first poll gets the one
  message \<open>{"error": "Task not found"}\<close> and the handler returns. Otherwise every poll
  sends one snapshot, and the handler returns at the first poll that reads a completed or
  failed status (after sending that snapshot), finds the subscriber gone (sending
  nothing) or finds no row; no further poll is made, however long one waits. The
  one-second cadence is wall-clock time and is represented by the poll number only.
\<close>

theorem C9_status_stream_ends:
  "(db_get (table (polls n)) tid = None \<and> connected (polls n) \<longrightarrow>
      task_updates uuid_str polls tid n (Suc fuel) = ([Error_message ''Task not found''], True))
   \<and> ((\<forall>i<k. keeps_polling polls tid (n + i)) \<and> \<not> keeps_polling polls tid (n + k)
        \<and> k < fuel \<longrightarrow>
      task_updates uuid_str polls tid n fuel =
        (map (snapshot_at uuid_str polls tid) [n..<n + k]
           @ (if connected (polls (n + k)) then [snapshot_at uuid_str polls tid (n + k)]
              else []),
         True))"
  using task_updates_run [of k polls tid n fuel uuid_str] by simp

theorem C9_status_stream_ends_witness:
  "db_get (table (example_polls 0)) 5 = None \<and> connected (example_polls 0)
   \<and> task_updates example_uuid_str example_polls 5 0 (Suc 3)
       = ([Error_message ''Task not found''], True)
   \<and> keeps_polling example_polls 1 (0 + 0) \<and> keeps_polling example_polls 1 (0 + 1)
   \<and> \<not> keeps_polling example_polls 1 (0 + 2)
   \<and> task_updates example_uuid_str example_polls 1 0 10
       = (map (snapshot_at example_uuid_str example_polls 1) [0..<0 + 2]
            @ (if connected (example_polls (0 + 2))
               then [snapshot_at example_uuid_str example_polls 1 (0 + 2)] else []),
          True)
   \<and> map (snapshot_at example_uuid_str example_polls 1) [0..<0 + 2]
         @ (if connected (example_polls (0 + 2))
            then [snapshot_at example_uuid_str example_polls 1 (0 + 2)] else [])
       = [Payload example_mid ''queued'' 0 None (JObject []) None None,
          Payload example_mid ''processing'' 0 None (JObject []) None None,
          Payload example_mid ''completed'' 100 None (outputs completed_row)
            (Some ''PROGRESS'') (Some (JObject [(''progress'', JInt 10)]))]"
proof -
  have missing: "db_get (table (example_polls 0)) 5 = None" "connected (example_polls 0)"
    by code_simp+
  have k0: "keeps_polling example_polls 1 (0 + 0)" by code_simp
  have k1: "keeps_polling example_polls 1 (0 + 1)" by code_simp
  have k2: "\<not> keeps_polling example_polls 1 (0 + 2)" by code_simp
  have run: "\<forall>i<2. keeps_polling example_polls 1 (0 + i)"
  proof (intro allI impI)
    fix i :: nat
    assume "i < 2"
    then have "i = 0 \<or> i = 1" by arith
    then show "keeps_polling example_polls 1 (0 + i)" using k0 k1 by blast
  qed
  have fuel: "(2::nat) < 10" by simp
  have snaps: "map (snapshot_at example_uuid_str example_polls 1) [0..<0 + 2]
                 @ (if connected (example_polls (0 + 2))
                    then [snapshot_at example_uuid_str example_polls 1 (0 + 2)] else [])
      = [Payload example_mid ''queued'' 0 None (JObject []) None None,
         Payload example_mid ''processing'' 0 None (JObject []) None None,
         Payload example_mid ''completed'' 100 None (outputs completed_row)
           (Some ''PROGRESS'') (Some (JObject [(''progress'', JInt 10)]))]"
    by code_simp
  note first =
    C9_status_stream_ends [where polls = example_polls and n = 0 and tid = 5 and fuel = 3
      and uuid_str = example_uuid_str and k = 0]
  note second =
    C9_status_stream_ends [where polls = example_polls and n = 0 and tid = 1 and fuel = 10
      and uuid_str = example_uuid_str and k = 2]
  have a: "task_updates example_uuid_str example_polls 5 0 (Suc 3)
             = ([Error_message ''Task not found''], True)"
    using first missing by blast
  have b: "task_updates example_uuid_str example_polls 1 0 10
       = (map (snapshot_at example_uuid_str example_polls 1) [0..<0 + 2]
            @ (if connected (example_polls (0 + 2))
               then [snapshot_at example_uuid_str example_polls 1 (0 + 2)] else []),
          True)"
    using second run k2 fuel by blast
  show ?thesis
    using missing k0 k1 k2 a b snaps by blast
qed

section \<open>The chain\<close>











section \<open>Validation failures\<close>

lemma BaseMediaTask_call_permanent:
  assumes "body (envs retries) (log_event (Invoked name retries) s) c = (s', Inl exc)"
    and "\<not> autoretry_for exc"
  shows "BaseMediaTask_call UUID name body envs retries s c = (on_failure UUID exc c s', Inl exc)"
  using assms by (simp add: BaseMediaTask_call.simps [of UUID name body envs retries s c])

lemma then_task_failed [simp]: "then_task (s, Inl x) f = (s, Inl x)"
  by (simp add: then_task_def)

lemma on_failure_found:
  assumes "UUID (media_task_id c) = Some u" and "media_task_id c \<noteq> []"
    and "db_get (rows s) u = Some r"
  shows "on_failure UUID exc c s =
           s\<lparr>rows := db_put (rows s) (r\<lparr>status := ''failed'', error_message := Some (str_exn exc)\<rparr>),
             trace := trace s @ [Commit (r\<lparr>status := ''failed'',
                                           error_message := Some (str_exn exc)\<rparr>)]\<rparr>"
  using assms
  by (simp add: on_failure_def update_media_row_def Let_def assign_fields_def set_if_def
        log_event_def)

text \<open>
  C2, as the specification states it, fails in the stored reason: the row of a rejected
  \<open>notes.txt\<close> carries \<open>Unsupported media format: .txt\<close>, not \<open>unsupported format\<close>, and
  the row of an empty \<open>clip.mp4\<close> carries \<open>Uploaded file is empty\<close>, not \<open>empty file\<close>.
\<close>

theorem C2_stored_reason_is_the_exception_text:
  "map error_message
     (rows (fst (execute_chain example_UUID ascii_lower default_settings steady_world
                   queued_state (initial_ctx example_mid notes_path))))
     = [Some ''Unsupported media format: .txt'']
   \<and> map error_message
       (rows (fst (execute_chain example_UUID ascii_lower default_settings steady_world
                     queued_state (initial_ctx example_mid notes_path))))
       \<noteq> [Some ''unsupported format'']
   \<and> map error_message
       (rows (fst (execute_chain example_UUID ascii_lower default_settings empty_file_world
                     queued_state (initial_ctx example_mid clip_path))))
       = [Some ''Uploaded file is empty'']
   \<and> map error_message
       (rows (fst (execute_chain example_UUID ascii_lower default_settings empty_file_world
                     queued_state (initial_ctx example_mid clip_path))))
       \<noteq> [Some ''empty file'']"
proof -
  have a: "map error_message
     (rows (fst (execute_chain example_UUID ascii_lower default_settings steady_world
                   queued_state (initial_ctx example_mid notes_path))))
     = [Some ''Unsupported media format: .txt'']"
    by code_simp
  have b: "map error_message
       (rows (fst (execute_chain example_UUID ascii_lower default_settings empty_file_world
                     queued_state (initial_ctx example_mid clip_path))))
       = [Some ''Uploaded file is empty'']"
    by code_simp
  show ?thesis
    unfolding a b by simp
qed

text \<open>
  C2, amended. For an uploaded file that exists and a task row that exists, and whatever
  case mapping \<open>str.lower\<close> is: when the lowered extension is none of the eight
  recognized ones, or when it is recognized and the file has size zero, the chain ends
  in the first execution of \<open>validate_media\<close>. The trace gains exactly one task execution
  (validate, \<open>request.retries = 0\<close>: no retry, no later stage) and one commit, which sets
  status failed and the error message to the text of the \<open>ValueError\<close>
  (\<open>Unsupported media format: \<close> followed by the lowered extension, respectively
  \<open>Uploaded file is empty\<close>) and leaves progress and every other field as they were.
\<close>

theorem C2_validation_failure_is_permanent:
  assumes "UUID mid = Some u" and "mid \<noteq> []" and "db_get (rows s) u = Some r"
    and "path_exists (world 0 0) ip"
  shows "(lower (suffix ip) \<notin> set [''.jpg'', ''.jpeg'', ''.png'', ''.webp'',
                                    ''.mp4'', ''.mov'', ''.mkv'', ''.webm''] \<longrightarrow>
          execute_chain UUID lower cfg world s (initial_ctx mid ip) =
            (s\<lparr>rows := db_put (rows s)
                          (r\<lparr>status := ''failed'',
                             error_message :=
                               Some (''Unsupported media format: '' @ lower (suffix ip))\<rparr>),
               trace := trace s @
                          [Invoked ''app.tasks.validate_media'' 0,
                           Commit (r\<lparr>status := ''failed'',
                                     error_message :=
                                       Some (''Unsupported media format: ''
                                               @ lower (suffix ip))\<rparr>)]\<rparr>,
             Inl (ValueError (''Unsupported media format: '' @ lower (suffix ip)))))
       \<and> (lower (suffix ip) \<in> set [''.jpg'', ''.jpeg'', ''.png'', ''.webp'',
                                    ''.mp4'', ''.mov'', ''.mkv'', ''.webm'']
          \<and> st_size (world 0 0) ip = 0 \<longrightarrow>
          execute_chain UUID lower cfg world s (initial_ctx mid ip) =
            (s\<lparr>rows := db_put (rows s)
                          (r\<lparr>status := ''failed'',
                             error_message := Some ''Uploaded file is empty''\<rparr>),
               trace := trace s @
                          [Invoked ''app.tasks.validate_media'' 0,
                           Commit (r\<lparr>status := ''failed'',
                                     error_message := Some ''Uploaded file is empty''\<rparr>)]\<rparr>,
             Inl (ValueError ''Uploaded file is empty'')))"
proof -
  let ?c0 = "initial_ctx mid ip"
  let ?s0 = "log_event (Invoked ''app.tasks.validate_media'' 0) s"
  have c0: "media_task_id ?c0 = mid" "input_path ?c0 = ip"
    by (simp_all add: initial_ctx_def)
  have row: "db_get (rows ?s0) u = Some r"
    using assms(3) by simp
  have stop: "execute_chain UUID lower cfg world s ?c0 = (on_failure UUID (ValueError m) ?c0 ?s0, Inl (ValueError m))"
    if "validate_media UUID lower (world 0 0) ?s0 ?c0 = (?s0, Inl (ValueError m))" for m
    using that
    by (simp add: execute_chain_def BaseMediaTask_call_permanent [where s' = ?s0])
  have failed: "on_failure UUID (ValueError m) ?c0 ?s0 =
      s\<lparr>rows := db_put (rows s) (r\<lparr>status := ''failed'', error_message := Some m\<rparr>),
        trace := trace s @ [Invoked ''app.tasks.validate_media'' 0,
                            Commit (r\<lparr>status := ''failed'', error_message := Some m\<rparr>)]\<rparr>"
    for m
    using on_failure_found [where UUID = UUID and c = ?c0 and u = u and s = ?s0 and r = r
        and exc = "ValueError m"] assms(1,2) row c0
    by (simp add: log_event_def)
  have unsupported:
    "validate_media UUID lower (world 0 0) ?s0 ?c0 =
       (?s0, Inl (ValueError (''Unsupported media format: '' @ lower (suffix ip))))"
    if "lower (suffix ip) \<notin> set [''.jpg'', ''.jpeg'', ''.png'', ''.webp'',
                                    ''.mp4'', ''.mov'', ''.mkv'', ''.webm'']"
    using that assms(4) c0 by (simp add: validate_media_def file_kind_def Let_def)
  have empty:
    "validate_media UUID lower (world 0 0) ?s0 ?c0 = (?s0, Inl (ValueError ''Uploaded file is empty''))"
    if "lower (suffix ip) \<in> set [''.jpg'', ''.jpeg'', ''.png'', ''.webp'',
                                  ''.mp4'', ''.mov'', ''.mkv'', ''.webm'']"
      and "st_size (world 0 0) ip = 0"
    using that assms(4) c0 by (auto simp add: validate_media_def file_kind_def Let_def)
  show ?thesis
    using stop [OF unsupported] stop [OF empty] failed by simp
qed


theorem C2_validation_failure_is_permanent_witness:
  "ascii_lower (suffix notes_path) \<notin> set [''.jpg'', ''.jpeg'', ''.png'', ''.webp'',
                                       ''.mp4'', ''.mov'', ''.mkv'', ''.webm'']
   \<and> ascii_lower (suffix notes_path) = ''.txt''
   \<and> execute_chain example_UUID ascii_lower default_settings steady_world queued_state
        (initial_ctx example_mid notes_path) =
        (queued_state
           \<lparr>rows := db_put (rows queued_state)
                      ((active_row 1 ''queued'')
                         \<lparr>status := ''failed'',
                          error_message :=
                            Some (''Unsupported media format: '' @ ascii_lower (suffix notes_path))\<rparr>),
            trace := trace queued_state @
                       [Invoked ''app.tasks.validate_media'' 0,
                        Commit ((active_row 1 ''queued'')
                                  \<lparr>status := ''failed'',
                                   error_message :=
                                     Some (''Unsupported media format: ''
                                             @ ascii_lower (suffix notes_path))\<rparr>)]\<rparr>,
         Inl (ValueError (''Unsupported media format: '' @ ascii_lower (suffix notes_path))))
   \<and> ascii_lower (suffix clip_path) \<in> set [''.jpg'', ''.jpeg'', ''.png'', ''.webp'',
                                       ''.mp4'', ''.mov'', ''.mkv'', ''.webm'']
   \<and> st_size (empty_file_world 0 0) clip_path = 0
   \<and> execute_chain example_UUID ascii_lower default_settings empty_file_world queued_state
        (initial_ctx example_mid clip_path) =
        (queued_state
           \<lparr>rows := db_put (rows queued_state)
                      ((active_row 1 ''queued'')
                         \<lparr>status := ''failed'',
                          error_message := Some ''Uploaded file is empty''\<rparr>),
            trace := trace queued_state @
                       [Invoked ''app.tasks.validate_media'' 0,
                        Commit ((active_row 1 ''queued'')
                                  \<lparr>status := ''failed'',
                                   error_message := Some ''Uploaded file is empty''\<rparr>)]\<rparr>,
         Inl (ValueError ''Uploaded file is empty''))"
proof -
  have a: "example_UUID example_mid = Some 1"
    by (simp add: example_UUID_def)
  have n: "example_mid \<noteq> []"
    by (simp add: example_mid_def)
  have b: "db_get (rows queued_state) 1 = Some (active_row 1 ''queued'')"
    by code_simp
  have there: "path_exists (steady_world 0 0) notes_path"
    "path_exists (empty_file_world 0 0) clip_path"
    by (simp_all add: steady_world_def empty_file_world_def working_env_def)
  have ext: "ascii_lower (suffix notes_path) = ''.txt''"
    by code_simp
  have unknown: "ascii_lower (suffix notes_path) \<notin> set [''.jpg'', ''.jpeg'', ''.png'', ''.webp'',
                                       ''.mp4'', ''.mov'', ''.mkv'', ''.webm'']"
    unfolding ext by simp
  have known: "ascii_lower (suffix clip_path) \<in> set [''.jpg'', ''.jpeg'', ''.png'', ''.webp'',
                                       ''.mp4'', ''.mov'', ''.mkv'', ''.webm'']"
    by code_simp
  have zero: "st_size (empty_file_world 0 0) clip_path = 0"
    by (simp add: empty_file_world_def)
  note first =
    C2_validation_failure_is_permanent [where UUID = example_UUID and mid = example_mid
      and u = 1 and s = queued_state and r = "active_row 1 ''queued''" and world = steady_world
      and ip = notes_path and cfg = default_settings and lower = ascii_lower,
      OF a n b there(1)]
  note second =
    C2_validation_failure_is_permanent [where UUID = example_UUID and mid = example_mid
      and u = 1 and s = queued_state and r = "active_row 1 ''queued''"
      and world = empty_file_world and ip = clip_path and cfg = default_settings
      and lower = ascii_lower, OF a n b there(2)]
  show ?thesis
    using ext unknown known zero first second by blast
qed

section \<open>Publishing\<close>

lemma upload_file_to_storage_fallback:
  assumes "upload_file e p (s3_bucket cfg) k = Some x" and "storage_error x"
  shows "upload_file_to_storage cfg e p k = Inr p"
  using assms by (cases x) (simp_all add: upload_file_to_storage_def)

text \<open>An exception of any other class goes through to the caller.\<close>

lemma upload_file_to_storage_lets_through:
  assumes "s3_enabled cfg" and "upload_file e p (s3_bucket cfg) k = Some x"
    and "\<not> storage_error x"
  shows "upload_file_to_storage cfg e p k = Inl x"
  using assms by (cases x) (simp_all add: upload_file_to_storage_def)

lemma upload_file_to_storage_returns:
  assumes "case upload_file e p (s3_bucket cfg) k of None \<Rightarrow> True | Some x \<Rightarrow> storage_error x"
  shows "\<exists>v. upload_file_to_storage cfg e p k = Inr v"
proof (cases "upload_file e p (s3_bucket cfg) k")
  case None
  then show ?thesis by (simp add: upload_file_to_storage_def)
next
  case (Some x)
  then show ?thesis
    using assms upload_file_to_storage_fallback [of e p cfg k x]
    by (cases "s3_enabled cfg") (simp_all add: upload_file_to_storage_def)
qed

lemma upload_loop_returns:
  assumes "\<forall>p k. \<exists>v. upload_file_to_storage cfg e p k = Inr v"
  shows "\<exists>up. upload_loop cfg e mid its acc = Inr up"
proof (induction its arbitrary: acc)
  case Nil
  then show ?case by simp
next
  case (Cons it its)
  obtain v where "upload_file_to_storage cfg e (path it) (mid @ ''/'' @ path_name (path it)) = Inr v"
    using assms by blast
  then show ?case
    using Cons.IH by (simp add: Let_def)
qed

lemma upload_loop_public:
  assumes "s3_enabled cfg" and "\<forall>p b k. upload_file e p b k = None"
  shows "upload_loop cfg e mid its acc
           = Inr (acc @ map (\<lambda>it. \<lparr>label = label it, path = path it,
                                    url = s3_public_base_url cfg @ ''/'' @ s3_bucket cfg
                                          @ ''/'' @ mid @ ''/'' @ path_name (path it)\<rparr>) its)"
  using assms
  by (induction its arbitrary: acc) (simp_all add: Let_def upload_file_to_storage_def)

lemma upload_loop_local:
  assumes "\<forall>p k. upload_file_to_storage cfg e p k = Inr p"
  shows "upload_loop cfg e mid its acc
           = Inr (acc @ map (\<lambda>it. \<lparr>label = label it, path = path it, url = path it\<rparr>) its)"
  using assms by (induction its arbitrary: acc) (simp_all add: Let_def)

lemma update_media_row_returns:
  "UUID mid = Some u \<Longrightarrow> \<exists>t. update_media_row UUID s mid st pr out err th = Inr t"
  by (simp add: update_media_row_def Let_def split: option.splits)

lemma upload_outputs_returns:
  assumes "\<forall>p k. \<exists>v. upload_file_to_storage cfg e p k = Inr v"
    and "watermarked c = Some wm" and "ctx_thumbnail_path c = Some tp"
    and "UUID (media_task_id c) = Some u"
  shows "\<exists>s1 c1. upload_outputs UUID cfg e s c = (s1, Inr c1)"
proof -
  obtain up where up: "upload_loop cfg e (media_task_id c) wm [] = Inr up"
    using upload_loop_returns [OF assms(1)] by blast
  obtain v where v: "upload_file_to_storage cfg e tp (media_task_id c @ ''/'' @ path_name tp) = Inr v"
    using assms(1) by blast
  obtain t where t: "update_media_row UUID s (media_task_id c) None (Some 90) None None None = Inr t"
    using update_media_row_returns [where UUID = UUID, OF assms(4)] by blast
  show ?thesis
    using assms(2,3) up v t by (simp add: upload_outputs_def lookup_def Let_def)
qed


text \<open>When every upload succeeds, each entry and the thumbnail carry the public URL of
  the object stored under \<open>{task_id}/{filename}\<close>.\<close>

lemma upload_outputs_public:
  assumes "s3_enabled cfg" and "\<forall>p b k. upload_file e p b k = None"
    and "watermarked c = Some wm" and "ctx_thumbnail_path c = Some tp"
    and "UUID (media_task_id c) = Some u" and "db_get (rows s) u = Some r"
  shows "\<exists>s1. upload_outputs UUID cfg e s c =
           (s1, Inr (c\<lparr>uploaded :=
                          Some (map (\<lambda>it. \<lparr>label = label it, path = path it,
                                            url = s3_public_base_url cfg @ ''/''
                                                  @ s3_bucket cfg @ ''/'' @ media_task_id c
                                                  @ ''/'' @ path_name (path it)\<rparr>) wm),
                        thumbnail_url :=
                          Some (s3_public_base_url cfg @ ''/'' @ s3_bucket cfg @ ''/''
                                @ media_task_id c @ ''/'' @ path_name tp)\<rparr>))
         \<and> (\<exists>r'. db_get (rows s1) u = Some r')"
proof -
  have up: "upload_loop cfg e (media_task_id c) wm []
              = Inr (map (\<lambda>it. \<lparr>label = label it, path = path it,
                                 url = s3_public_base_url cfg @ ''/'' @ s3_bucket cfg @ ''/''
                                       @ media_task_id c @ ''/'' @ path_name (path it)\<rparr>) wm)"
    using upload_loop_public [OF assms(1,2), of "media_task_id c" wm "[]"] by simp
  obtain t where t: "update_media_row UUID s (media_task_id c) None (Some 90) None None None = Inr t"
    using update_media_row_returns [where UUID = UUID, OF assms(5)] by blast
  have "\<exists>r'. db_get (rows t) u = Some r'"
    using update_media_row_checkpoint [where UUID = UUID, OF t assms(5,6)] by simp
  then show ?thesis
    using assms(1,2,3,4) up t
    by (simp add: upload_outputs_def upload_file_to_storage_def lookup_def Let_def)
qed

lemma upload_outputs_local:
  assumes "\<forall>p k. upload_file_to_storage cfg e p k = Inr p"
    and "watermarked c = Some wm" and "ctx_thumbnail_path c = Some tp"
    and "UUID (media_task_id c) = Some u" and "db_get (rows s) u = Some r"
  shows "\<exists>s1. upload_outputs UUID cfg e s c =
           (s1, Inr (c\<lparr>uploaded :=
                          Some (map (\<lambda>it. \<lparr>label = label it, path = path it, url = path it\<rparr>) wm),
                        thumbnail_url := Some tp\<rparr>))
         \<and> (\<exists>r'. db_get (rows s1) u = Some r')"
proof -
  have up: "upload_loop cfg e (media_task_id c) wm []
              = Inr (map (\<lambda>it. \<lparr>label = label it, path = path it, url = path it\<rparr>) wm)"
    using upload_loop_local [OF assms(1), of "media_task_id c" wm "[]"] by simp
  obtain t where t: "update_media_row UUID s (media_task_id c) None (Some 90) None None None = Inr t"
    using update_media_row_returns [where UUID = UUID, OF assms(4)] by blast
  have "\<exists>r'. db_get (rows t) u = Some r'"
    using update_media_row_checkpoint [where UUID = UUID, OF t assms(4,5)] by simp
  then show ?thesis
    using assms(1,2,3) up t by (simp add: upload_outputs_def lookup_def Let_def)
qed

lemma finalize_success_completes:
  assumes "thumbnail_url c = Some tu" and "uploaded c = Some up"
    and "UUID (media_task_id c) = Some u" and "db_get (rows s) u = Some r"
  shows "\<exists>s2. finalize_success UUID e s c =
           (s2, Inr (JObject [(''thumbnail'', JString tu),
                              (''variants'', JArray (map variant_json up))]))
         \<and> (\<exists>r'. db_get (rows s2) u = Some r' \<and> status r' = ''completed'')"
proof -
  let ?outs = "JObject [(''thumbnail'', JString tu), (''variants'', JArray (map variant_json up))]"
  obtain t where t: "update_media_row UUID s (media_task_id c) (Some ''completed'') (Some 100)
                       (Some ?outs) None None = Inr t"
    using update_media_row_returns [where UUID = UUID, OF assms(3)] by blast
  have "db_get (rows t) u
          = Some (assign_fields (Some ''completed'') (Some 100) (Some ?outs) None None r)"
    using update_media_row_checkpoint [where UUID = UUID, OF t assms(3,4)] by simp
  then have "\<exists>r'. db_get (rows t) u = Some r' \<and> status r' = ''completed''"
    by simp
  then show ?thesis
    using assms(1,2) t by (simp add: finalize_success_def lookup_def Let_def)
qed

text \<open>
  What the \<open>except\<close> clause covers. \<open>upload_file_to_storage\<close> returns the public URL when
  the upload succeeds and the local path it was given when the client raises
  \<open>BotoCoreError\<close> or \<open>ClientError\<close>. With uploads that each succeed or raise one of these
  two, \<open>upload_outputs\<close> returns (for a context that has reached it). When every upload
  raises one of them, the uploaded entries and the thumbnail carry their local paths as
  URL, and \<open>finalize_success\<close> on that context leaves the row completed with these paths
  as outputs.
\<close>

lemma publish_falls_back_on_caught_errors:
  "(s3_enabled cfg \<and> upload_file e p (s3_bucket cfg) k = None \<longrightarrow>
      upload_file_to_storage cfg e p k
        = Inr (s3_public_base_url cfg @ ''/'' @ s3_bucket cfg @ ''/'' @ k))
   \<and> (upload_file e p (s3_bucket cfg) k = Some x \<and> storage_error x \<longrightarrow>
        upload_file_to_storage cfg e p k = Inr p)
   \<and> ((\<forall>p b k. case upload_file e p b k of None \<Rightarrow> True | Some x \<Rightarrow> storage_error x)
        \<and> watermarked c = Some wm \<and> ctx_thumbnail_path c = Some tp
        \<and> UUID (media_task_id c) = Some u \<longrightarrow>
        (\<exists>s1 c1. upload_outputs UUID cfg e s c = (s1, Inr c1)))
   \<and> ((\<forall>p b k. \<exists>x. upload_file e p b k = Some x \<and> storage_error x)
        \<and> watermarked c = Some wm \<and> ctx_thumbnail_path c = Some tp
        \<and> UUID (media_task_id c) = Some u \<and> db_get (rows s) u = Some r \<longrightarrow>
        (\<exists>s1 c1 s2.
            upload_outputs UUID cfg e s c = (s1, Inr c1)
            \<and> uploaded c1
                = Some (map (\<lambda>it. \<lparr>label = label it, path = path it, url = path it\<rparr>) wm)
            \<and> thumbnail_url c1 = Some tp
            \<and> finalize_success UUID e2 s1 c1
                = (s2, Inr (JObject
                             [(''thumbnail'', JString tp),
                              (''variants'',
                               JArray (map (\<lambda>it. JObject [(''label'', JString (label it)),
                                                           (''url'', JString (path it))]) wm))]))
            \<and> (\<exists>r'. db_get (rows s2) u = Some r' \<and> status r' = ''completed'')))"
proof (intro conjI impI)
  assume "s3_enabled cfg \<and> upload_file e p (s3_bucket cfg) k = None"
  then show "upload_file_to_storage cfg e p k
               = Inr (s3_public_base_url cfg @ ''/'' @ s3_bucket cfg @ ''/'' @ k)"
    by (simp add: upload_file_to_storage_def)
next
  assume "upload_file e p (s3_bucket cfg) k = Some x \<and> storage_error x"
  then show "upload_file_to_storage cfg e p k = Inr p"
    using upload_file_to_storage_fallback by blast
next
  assume a: "(\<forall>p b k. case upload_file e p b k of None \<Rightarrow> True | Some x \<Rightarrow> storage_error x)
        \<and> watermarked c = Some wm \<and> ctx_thumbnail_path c = Some tp
        \<and> UUID (media_task_id c) = Some u"
  then have "\<forall>p k. \<exists>v. upload_file_to_storage cfg e p k = Inr v"
    using upload_file_to_storage_returns by blast
  then show "\<exists>s1 c1. upload_outputs UUID cfg e s c = (s1, Inr c1)"
    using a upload_outputs_returns [where UUID = UUID and cfg = cfg and e = e and c = c
        and wm = wm and tp = tp and u = u and s = s]
    by blast
next
  assume a: "(\<forall>p b k. \<exists>x. upload_file e p b k = Some x \<and> storage_error x)
        \<and> watermarked c = Some wm \<and> ctx_thumbnail_path c = Some tp
        \<and> UUID (media_task_id c) = Some u \<and> db_get (rows s) u = Some r"
  let ?up = "map (\<lambda>it. \<lparr>label = label it, path = path it, url = path it\<rparr>) wm"
  let ?c1 = "c\<lparr>uploaded := Some ?up, thumbnail_url := Some tp\<rparr>"
  have local: "\<forall>p k. upload_file_to_storage cfg e p k = Inr p"
    using a upload_file_to_storage_fallback by metis
  obtain s1 r1 where s1: "upload_outputs UUID cfg e s c = (s1, Inr ?c1)"
    and r1: "db_get (rows s1) u = Some r1"
    using a upload_outputs_local [where UUID = UUID and cfg = cfg and e = e and c = c
        and wm = wm and tp = tp and u = u and s = s and r = r, OF local]
    by blast
  have vj: "map variant_json ?up
              = map (\<lambda>it. JObject [(''label'', JString (label it)),
                                     (''url'', JString (path it))]) wm"
    by (simp add: variant_json_def)
  have "\<exists>s2. finalize_success UUID e2 s1 ?c1 =
           (s2, Inr (JObject [(''thumbnail'', JString tp),
                              (''variants'', JArray (map variant_json ?up))]))
         \<and> (\<exists>r'. db_get (rows s2) u = Some r' \<and> status r' = ''completed'')"
    using a r1
    by (intro finalize_success_completes [where UUID = UUID and r = r1]) simp_all
  then obtain s2 r' where fin: "finalize_success UUID e2 s1 ?c1 =
           (s2, Inr (JObject
                      [(''thumbnail'', JString tp),
                       (''variants'',
                        JArray (map (\<lambda>it. JObject [(''label'', JString (label it)),
                                                    (''url'', JString (path it))]) wm))]))"
    and compl: "db_get (rows s2) u = Some r'" "status r' = ''completed''"
    unfolding vj by blast
  show "\<exists>s1 c1 s2.
            upload_outputs UUID cfg e s c = (s1, Inr c1)
            \<and> uploaded c1 = Some ?up
            \<and> thumbnail_url c1 = Some tp
            \<and> finalize_success UUID e2 s1 c1
                = (s2, Inr (JObject
                             [(''thumbnail'', JString tp),
                              (''variants'',
                               JArray (map (\<lambda>it. JObject [(''label'', JString (label it)),
                                                           (''url'', JString (path it))]) wm))]))
            \<and> (\<exists>r'. db_get (rows s2) u = Some r' \<and> status r' = ''completed'')"
    using s1 fin compl by (intro exI [of _ s1] exI [of _ ?c1] exI [of _ s2]) auto
qed


lemma publish_falls_back_on_outage:
  "s3_enabled default_settings
   \<and> upload_file working_env clip_thumb (s3_bucket default_settings) ''m/clip_thumb.jpg'' = None
   \<and> upload_file_to_storage default_settings working_env clip_thumb ''m/clip_thumb.jpg''
       = Inr (s3_public_base_url default_settings @ ''/'' @ s3_bucket default_settings @ ''/''
              @ ''m/clip_thumb.jpg'')
   \<and> upload_file outage_env clip_thumb (s3_bucket default_settings) ''m/clip_thumb.jpg''
       = Some (BotoCoreError ''Could not connect to the endpoint URL'')
   \<and> storage_error (BotoCoreError ''Could not connect to the endpoint URL'')
   \<and> upload_file_to_storage default_settings outage_env clip_thumb ''m/clip_thumb.jpg''
       = Inr clip_thumb
   \<and> (\<exists>s1 c1. upload_outputs example_UUID default_settings outage_env queued_state
                  watermarked_ctx = (s1, Inr c1))
   \<and> (\<exists>s1 c1 s2.
         upload_outputs example_UUID default_settings outage_env queued_state watermarked_ctx
           = (s1, Inr c1)
         \<and> uploaded c1
             = Some (map (\<lambda>it. \<lparr>label = label it, path = path it, url = path it\<rparr>)
                       [\<lparr>label = ''1080p'', path = ''/tmp/media/output/c_1080p_wm.mp4''\<rparr>,
                        \<lparr>label = ''720p'', path = ''/tmp/media/output/c_720p_wm.mp4''\<rparr>,
                        \<lparr>label = ''480p'', path = ''/tmp/media/output/c_480p_wm.mp4''\<rparr>])
         \<and> thumbnail_url c1 = Some clip_thumb
         \<and> finalize_success example_UUID outage_env s1 c1
             = (s2, Inr (JObject
                          [(''thumbnail'', JString clip_thumb),
                           (''variants'',
                            JArray (map (\<lambda>it. JObject [(''label'', JString (label it)),
                                                        (''url'', JString (path it))])
                              [\<lparr>label = ''1080p'', path = ''/tmp/media/output/c_1080p_wm.mp4''\<rparr>,
                               \<lparr>label = ''720p'', path = ''/tmp/media/output/c_720p_wm.mp4''\<rparr>,
                               \<lparr>label = ''480p'',
                                path = ''/tmp/media/output/c_480p_wm.mp4''\<rparr>]))]))
         \<and> (\<exists>r'. db_get (rows s2) 1 = Some r' \<and> status r' = ''completed''))"
proof -
  let ?wm = "[\<lparr>label = ''1080p'', path = ''/tmp/media/output/c_1080p_wm.mp4''\<rparr>,
              \<lparr>label = ''720p'', path = ''/tmp/media/output/c_720p_wm.mp4''\<rparr>,
              \<lparr>label = ''480p'', path = ''/tmp/media/output/c_480p_wm.mp4''\<rparr>]"
  have on: "s3_enabled default_settings"
    by (simp add: default_settings_def)
  have up: "upload_file working_env clip_thumb (s3_bucket default_settings) ''m/clip_thumb.jpg''
              = None"
    by (simp add: working_env_def)
  have down: "upload_file outage_env clip_thumb (s3_bucket default_settings) ''m/clip_thumb.jpg''
       = Some (BotoCoreError ''Could not connect to the endpoint URL'')"
    by (simp add: outage_env_def)
  have err: "storage_error (BotoCoreError ''Could not connect to the endpoint URL'')"
    by simp
  have caught: "\<forall>p b k. case upload_file outage_env p b k of None \<Rightarrow> True
                           | Some x \<Rightarrow> storage_error x"
    by (simp add: outage_env_def)
  have outage: "\<forall>p b k. \<exists>x. upload_file outage_env p b k = Some x \<and> storage_error x"
    by (simp add: outage_env_def)
  have c: "watermarked watermarked_ctx = Some ?wm"
    "ctx_thumbnail_path watermarked_ctx = Some clip_thumb"
    "example_UUID (media_task_id watermarked_ctx) = Some 1"
    by (simp_all add: watermarked_ctx_def validated_ctx_def initial_ctx_def example_UUID_def)
  have row: "db_get (rows queued_state) 1 = Some (active_row 1 ''queued'')"
    by code_simp
  note works =
    publish_falls_back_on_caught_errors [where cfg = default_settings and e = working_env
      and p = clip_thumb and k = "''m/clip_thumb.jpg''"]
  note fails =
    publish_falls_back_on_caught_errors [where cfg = default_settings and e = outage_env
      and p = clip_thumb and k = "''m/clip_thumb.jpg''"
      and x = "BotoCoreError ''Could not connect to the endpoint URL''"
      and c = watermarked_ctx and wm = ?wm and tp = clip_thumb and UUID = example_UUID
      and u = 1 and s = queued_state and r = "active_row 1 ''queued''" and ?e2.0 = outage_env]
  have a: "upload_file_to_storage default_settings working_env clip_thumb ''m/clip_thumb.jpg''
       = Inr (s3_public_base_url default_settings @ ''/'' @ s3_bucket default_settings @ ''/''
              @ ''m/clip_thumb.jpg'')"
    using works on up by blast
  have b: "upload_file_to_storage default_settings outage_env clip_thumb ''m/clip_thumb.jpg''
       = Inr clip_thumb"
    using fails down err by blast
  have d: "\<exists>s1 c1. upload_outputs example_UUID default_settings outage_env queued_state
                  watermarked_ctx = (s1, Inr c1)"
    using fails caught c by blast
  have e: "\<exists>s1 c1 s2.
         upload_outputs example_UUID default_settings outage_env queued_state watermarked_ctx
           = (s1, Inr c1)
         \<and> uploaded c1
             = Some (map (\<lambda>it. \<lparr>label = label it, path = path it, url = path it\<rparr>) ?wm)
         \<and> thumbnail_url c1 = Some clip_thumb
         \<and> finalize_success example_UUID outage_env s1 c1
             = (s2, Inr (JObject
                          [(''thumbnail'', JString clip_thumb),
                           (''variants'',
                            JArray (map (\<lambda>it. JObject [(''label'', JString (label it)),
                                                        (''url'', JString (path it))]) ?wm))]))
         \<and> (\<exists>r'. db_get (rows s2) 1 = Some r' \<and> status r' = ''completed'')"
    using fails outage c row by blast
  show ?thesis
    using on up down err a b d e by blast
qed

text \<open>
  C5 does not hold of the code. When the object store refuses the upload, \<open>boto3\<close> raises
  \<open>S3UploadFailedError\<close>, which the \<open>except (BotoCoreError, ClientError)\<close> of
  \<open>upload_file_to_storage\<close> does not catch: the call returns neither a URL nor the local
  path, \<open>upload_outputs\<close> raises, and the task, instead of reaching completed, ends failed
  at progress 75 with the exception's text as error message, after one execution of each
  of the first five stages and without a retry.
\<close>

theorem C5_refused_upload_fails_the_task:
  "upload_file_to_storage default_settings denied_env clip_thumb
     (example_mid @ ''/'' @ path_name clip_thumb)
     = Inl (S3UploadFailedError
              (denied_message clip_thumb ''media'' (example_mid @ ''/'' @ path_name clip_thumb)))
   \<and> upload_outputs example_UUID default_settings denied_env queued_state watermarked_ctx
     = (queued_state,
        Inl (S3UploadFailedError
               (denied_message ''/tmp/media/output/c_1080p_wm.mp4'' ''media''
                  (example_mid @ ''/c_1080p_wm.mp4''))))
   \<and> run_summary (fst (execute_chain example_UUID ascii_lower default_settings denied_world
                         queued_state (initial_ctx example_mid clip_path)))
     = ([(''failed'', 75,
          Some (denied_message
                  ''/tmp/media/output/6f1c2d3e-0000-4000-8000-000000000001_clip_1080p_wm.mp4''
                  ''media''
                  (example_mid @ ''/6f1c2d3e-0000-4000-8000-000000000001_clip_1080p_wm.mp4'')))],
        [(''app.tasks.validate_media'', 0), (''app.tasks.generate_thumbnail'', 0),
         (''app.tasks.convert_resolutions'', 0), (''app.tasks.apply_watermark'', 0),
         (''app.tasks.upload_outputs'', 0)],
        [])"
proof -
  have a: "upload_file_to_storage default_settings denied_env clip_thumb
     (example_mid @ ''/'' @ path_name clip_thumb)
     = Inl (S3UploadFailedError
              (denied_message clip_thumb ''media'' (example_mid @ ''/'' @ path_name clip_thumb)))"
    by code_simp
  have b: "upload_outputs example_UUID default_settings denied_env queued_state watermarked_ctx
     = (queued_state,
        Inl (S3UploadFailedError
               (denied_message ''/tmp/media/output/c_1080p_wm.mp4'' ''media''
                  (example_mid @ ''/c_1080p_wm.mp4''))))"
    by code_simp
  have c: "run_summary (fst (execute_chain example_UUID ascii_lower default_settings denied_world
                         queued_state (initial_ctx example_mid clip_path)))
     = ([(''failed'', 75,
          Some (denied_message
                  ''/tmp/media/output/6f1c2d3e-0000-4000-8000-000000000001_clip_1080p_wm.mp4''
                  ''media''
                  (example_mid @ ''/6f1c2d3e-0000-4000-8000-000000000001_clip_1080p_wm.mp4'')))],
        [(''app.tasks.validate_media'', 0), (''app.tasks.generate_thumbnail'', 0),
         (''app.tasks.convert_resolutions'', 0), (''app.tasks.apply_watermark'', 0),
         (''app.tasks.upload_outputs'', 0)],
        [])"
    by code_simp
  show ?thesis
    using a b c by blast
qed

section \<open>Retries\<close>

lemma call_unfold:
  "BaseMediaTask_call UUID name body envs retries s c =
     (case body (envs retries) (log_event (Invoked name retries) s) c of
        (s1, Inr r) \<Rightarrow> (s1, Inr r)
      | (s1, Inl exc) \<Rightarrow>
          if autoretry_for exc \<and> \<not> max_retries < retries + 1
          then BaseMediaTask_call UUID name body envs (retries + 1)
                 (log_event
                    (Retry name
                       (get_exponential_backoff_interval retry_backoff retries
                          retry_backoff_max retry_jitter (random (envs retries))))
                    s1)
                 c
          else (on_failure UUID exc c s1, Inl exc))"
  by (rule BaseMediaTask_call.simps)

text \<open>Transient failures up to the retry limit, then a success.\<close>

lemma BaseMediaTask_call_retries_then_ok:
  assumes "\<forall>r. j \<le> r \<and> r < k \<longrightarrow>
             (\<forall>s. \<exists>t. body (envs r) s c = (t, Inl (TransientProcessingError (m r))))"
    and "\<forall>s. \<exists>t. body (envs k) s c = (t, Inr res)"
    and "j \<le> k" and "k \<le> max_retries"
  shows "snd (BaseMediaTask_call UUID name body envs j s c) = Inr res"
  using assms
proof (induction "k - j" arbitrary: j s)
  case 0
  then have "j = k" by simp
  moreover obtain t where "body (envs k) (log_event (Invoked name k) s) c = (t, Inr res)"
    using "0.prems"(2) by blast
  ultimately show ?case
    by (simp add: call_unfold [of UUID name body envs k s c])
next
  case (Suc d)
  then have less: "j < k" by simp
  obtain t where run: "body (envs j) (log_event (Invoked name j) s) c
                         = (t, Inl (TransientProcessingError (m j)))"
    using Suc.prems(1) less by blast
  have retry: "\<not> max_retries < j + 1"
    using less Suc.prems(4) by simp
  have "snd (BaseMediaTask_call UUID name body envs (Suc j) s' c) = Inr res" for s'
    using Suc.hyps(1) [of "Suc j" s'] Suc.hyps(2) Suc.prems less by auto
  then show ?case
    using run retry by (simp add: call_unfold [of UUID name body envs j s c])
qed

text \<open>Transient failures in every execution up to the retry limit.\<close>

lemma BaseMediaTask_call_retries_exhausted:
  assumes "\<forall>r. j \<le> r \<and> r \<le> max_retries \<longrightarrow>
             (\<forall>s. \<exists>t. body (envs r) s c = (t, Inl (TransientProcessingError (m r)))
                       \<and> rows t = rows s)"
    and "j \<le> max_retries"
    and "UUID (media_task_id c) = Some u" and "media_task_id c \<noteq> []"
    and "db_get (rows s) u = Some row"
  shows "snd (BaseMediaTask_call UUID name body envs j s c)
           = Inl (TransientProcessingError (m max_retries))
         \<and> db_get (rows (fst (BaseMediaTask_call UUID name body envs j s c))) u
             = Some (row\<lparr>status := ''failed'', error_message := Some (m max_retries)\<rparr>)"
  using assms
proof (induction "max_retries - j" arbitrary: j s)
  case 0
  then have j: "j = max_retries" by simp
  obtain t where run: "body (envs j) (log_event (Invoked name j) s) c
                         = (t, Inl (TransientProcessingError (m j)))"
    and same: "rows t = rows s"
    using "0.prems"(1) j by (metis order_refl rows_log_event)
  have row: "db_get (rows t) u = Some row"
    using same "0.prems"(5) by simp
  have key: "task_id row = u"
    using "0.prems"(5) by (rule db_get_task_id)
  have "on_failure UUID (TransientProcessingError (m j)) c t =
          t\<lparr>rows := db_put (rows t) (row\<lparr>status := ''failed'', error_message := Some (m j)\<rparr>),
            trace := trace t @ [Commit (row\<lparr>status := ''failed'',
                                            error_message := Some (m j)\<rparr>)]\<rparr>"
    using on_failure_found [where UUID = UUID and c = c and u = u and s = t and r = row
        and exc = "TransientProcessingError (m j)"] "0.prems"(3,4) row
    by simp
  moreover have "BaseMediaTask_call UUID name body envs j s c
      = (on_failure UUID (TransientProcessingError (m j)) c t,
         Inl (TransientProcessingError (m j)))"
    using run unfolding j
    by (simp add: call_unfold [of UUID name body envs max_retries s c])
  ultimately show ?case
    using j row key by (simp add: db_get_db_put_same)
next
  case (Suc d)
  then have less: "j < max_retries" by simp
  obtain t where run: "body (envs j) (log_event (Invoked name j) s) c
                         = (t, Inl (TransientProcessingError (m j)))"
    and same: "rows t = rows s"
    using Suc.prems(1) less by (metis less_imp_le order_refl rows_log_event)
  let ?s' = "log_event
               (Retry name
                  (get_exponential_backoff_interval retry_backoff j retry_backoff_max
                     retry_jitter (random (envs j)))) t"
  have row: "db_get (rows ?s') u = Some row"
    using same Suc.prems(5) by simp
  have step: "BaseMediaTask_call UUID name body envs j s c
                = BaseMediaTask_call UUID name body envs (Suc j) ?s' c"
    using run less by (simp add: call_unfold [of UUID name body envs j s c])
  have "snd (BaseMediaTask_call UUID name body envs (Suc j) ?s' c)
           = Inl (TransientProcessingError (m max_retries))
         \<and> db_get (rows (fst (BaseMediaTask_call UUID name body envs (Suc j) ?s' c))) u
             = Some (row\<lparr>status := ''failed'', error_message := Some (m max_retries)\<rparr>)"
    using Suc.hyps(1) [of "Suc j" ?s'] Suc.hyps(2) Suc.prems(1,3,4) less row by auto
  then show ?case
    unfolding step .
qed

lemma backoff_bound:
  "get_exponential_backoff_interval retry_backoff r retry_backoff_max retry_jitter rnd
     \<le> min 60 (2 ^ r)"
proof -
  have "rnd mod (min 60 (2 ^ r) + 1) \<le> min 60 (2 ^ r)"
    using mod_Suc_le_divisor [of rnd "min 60 (2 ^ r)"] by simp
  then show ?thesis
    by (simp add: get_exponential_backoff_interval_def retry_backoff_def retry_backoff_max_def
          retry_jitter_def Let_def)
qed



text \<open>
  C3. \<open>max_retries\<close> is 5 and the countdown of the retry after the execution with
  \<open>request.retries = n\<close> is at most \<open>min(60, 2 ^ n)\<close> seconds. For every task body: if
  its first \<open>k \<le> 5\<close> executions raise \<open>TransientProcessingError\<close> and the next one
  returns, the task succeeds with that result, so the chain goes on (in particular for
  \<open>k = 4\<close>); if each of the six executions with \<open>request.retries = 0, ..., 5\<close> raises
  it, there is no seventh, the task fails with the sixth exception, and the row is left
  with status failed and that exception's message.
\<close>

theorem C3_transient_retries:
  "max_retries = 5
   \<and> get_exponential_backoff_interval retry_backoff n retry_backoff_max retry_jitter rnd
        \<le> min 60 (2 ^ n)
   \<and> ((\<forall>r<k. \<forall>s. \<exists>t. body (envs r) s c = (t, Inl (TransientProcessingError (m r))))
        \<and> k \<le> 5 \<and> (\<forall>s. \<exists>t. body (envs k) s c = (t, Inr res)) \<longrightarrow>
        snd (BaseMediaTask_call UUID name body envs 0 s0 c) = Inr res)
   \<and> ((\<forall>r<6. \<forall>s. \<exists>t. body (envs r) s c = (t, Inl (TransientProcessingError (m r)))
                        \<and> rows t = rows s)
        \<and> UUID (media_task_id c) = Some u \<and> media_task_id c \<noteq> []
        \<and> db_get (rows s0) u = Some row \<longrightarrow>
        snd (BaseMediaTask_call UUID name body envs 0 s0 c)
          = Inl (TransientProcessingError (m 5))
        \<and> db_get (rows (fst (BaseMediaTask_call UUID name body envs 0 s0 c))) u
            = Some (row\<lparr>status := ''failed'', error_message := Some (m 5)\<rparr>))"
proof (intro conjI impI)
  show "max_retries = 5" by (simp add: max_retries_def)
next
  show "get_exponential_backoff_interval retry_backoff n retry_backoff_max retry_jitter rnd
          \<le> min 60 (2 ^ n)"
    by (rule backoff_bound)
next
  assume a: "(\<forall>r<k. \<forall>s. \<exists>t. body (envs r) s c = (t, Inl (TransientProcessingError (m r))))
        \<and> k \<le> 5 \<and> (\<forall>s. \<exists>t. body (envs k) s c = (t, Inr res))"
  then show "snd (BaseMediaTask_call UUID name body envs 0 s0 c) = Inr res"
    by (intro BaseMediaTask_call_retries_then_ok [where k = k and m = m])
       (simp_all add: max_retries_def)
next
  assume a: "(\<forall>r<6. \<forall>s. \<exists>t. body (envs r) s c = (t, Inl (TransientProcessingError (m r)))
                        \<and> rows t = rows s)
        \<and> UUID (media_task_id c) = Some u \<and> media_task_id c \<noteq> []
        \<and> db_get (rows s0) u = Some row"
  have all: "\<forall>r. 0 \<le> r \<and> r \<le> max_retries \<longrightarrow>
             (\<forall>s. \<exists>t. body (envs r) s c = (t, Inl (TransientProcessingError (m r)))
                       \<and> rows t = rows s)"
    using a by (simp add: max_retries_def)
  have "snd (BaseMediaTask_call UUID name body envs 0 s0 c)
           = Inl (TransientProcessingError (m max_retries))
         \<and> db_get (rows (fst (BaseMediaTask_call UUID name body envs 0 s0 c))) u
             = Some (row\<lparr>status := ''failed'', error_message := Some (m max_retries)\<rparr>)"
    using a
    by (intro BaseMediaTask_call_retries_exhausted [where UUID = UUID and body = body
          and envs = envs and c = c and m = m and j = 0 and u = u and row = row and s = s0
          and name = name, OF all]) simp_all
  then show "snd (BaseMediaTask_call UUID name body envs 0 s0 c)
          = Inl (TransientProcessingError (m 5))"
    and "db_get (rows (fst (BaseMediaTask_call UUID name body envs 0 s0 c))) u
            = Some (row\<lparr>status := ''failed'', error_message := Some (m 5)\<rparr>)"
    by (simp_all add: max_retries_def)
qed

theorem C3_transient_retries_witness:
  "snd (BaseMediaTask_call example_UUID ''app.tasks.generate_thumbnail''
          (generate_thumbnail example_UUID default_settings) (flaky_world 1 4 1) 0 queued_state
          validated_ctx)
     = Inr (validated_ctx\<lparr>ctx_thumbnail_path := Some clip_thumb\<rparr>)
   \<and> snd (BaseMediaTask_call example_UUID ''app.tasks.generate_thumbnail''
          (generate_thumbnail example_UUID default_settings) (flaky_world 1 6 1) 0 queued_state
          validated_ctx)
     = Inl (TransientProcessingError ''Failed to generate video thumbnail'')
   \<and> db_get (rows (fst (BaseMediaTask_call example_UUID ''app.tasks.generate_thumbnail''
          (generate_thumbnail example_UUID default_settings) (flaky_world 1 6 1) 0 queued_state
          validated_ctx))) 1
     = Some ((active_row 1 ''queued'')
               \<lparr>status := ''failed'',
                error_message := Some ''Failed to generate video thumbnail''\<rparr>)
   \<and> run_summary (fst (execute_chain example_UUID ascii_lower default_settings (flaky_world 1 4)
                          queued_state (initial_ctx example_mid clip_path)))
     = ([(''completed'', 100, None)],
        [(''app.tasks.validate_media'', 0), (''app.tasks.generate_thumbnail'', 0),
         (''app.tasks.generate_thumbnail'', 1), (''app.tasks.generate_thumbnail'', 2),
         (''app.tasks.generate_thumbnail'', 3), (''app.tasks.generate_thumbnail'', 4),
         (''app.tasks.convert_resolutions'', 0), (''app.tasks.apply_watermark'', 0),
         (''app.tasks.upload_outputs'', 0), (''app.tasks.finalize_success'', 0)],
        [1, 1, 2, 7])
   \<and> run_summary (fst (execute_chain example_UUID ascii_lower default_settings (flaky_world 2 6)
                          queued_state (initial_ctx example_mid clip_path)))
     = ([(''failed'', 25, Some ''Failed to convert 1080p'')],
        [(''app.tasks.validate_media'', 0), (''app.tasks.generate_thumbnail'', 0),
         (''app.tasks.convert_resolutions'', 0), (''app.tasks.convert_resolutions'', 1),
         (''app.tasks.convert_resolutions'', 2), (''app.tasks.convert_resolutions'', 3),
         (''app.tasks.convert_resolutions'', 4), (''app.tasks.convert_resolutions'', 5)],
        [1, 1, 2, 7, 7])"
proof -
  let ?body = "generate_thumbnail example_UUID default_settings"
  let ?msg = "\<lambda>r::nat. ''Failed to generate video thumbnail''"
  have tp: "joinpath (media_thumb_dir default_settings) (stem clip_path @ ''_thumb.jpg'')
              = clip_thumb"
    by code_simp
  have c: "input_path validated_ctx = clip_path" "kind validated_ctx = Some ''video''"
    "media_task_id validated_ctx = example_mid"
    by (simp_all add: validated_ctx_def initial_ctx_def)
  have u: "example_UUID (media_task_id validated_ctx) = Some 1"
    by (simp add: c example_UUID_def)
  have fails: "\<exists>t. ?body (working_env\<lparr>ffmpeg := (\<lambda>cmd. 1)\<rparr>) s validated_ctx
                     = (t, Inl (TransientProcessingError (?msg r))) \<and> rows t = rows s" for s r
    by (simp add: generate_thumbnail_def c lookup_def Let_def)
  have works: "\<exists>t. ?body working_env s validated_ctx
                     = (t, Inr (validated_ctx\<lparr>ctx_thumbnail_path := Some clip_thumb\<rparr>))" for s
  proof -
    obtain t where "update_media_row example_UUID
        (log_event (Written clip_thumb
           (Ffmpeg_output [''ffmpeg'', ''-y'', ''-i'', clip_path, ''-ss'', ''00:00:01'',
                           ''-frames:v'', ''1'', clip_thumb])) s)
        example_mid None (Some 25) None None (Some clip_thumb) = Inr t"
      using update_media_row_returns [where UUID = example_UUID and mid = example_mid and u = 1]
      by (simp add: example_UUID_def) blast
    then show ?thesis
      by (simp add: generate_thumbnail_def c tp lookup_def Let_def working_env_def)
  qed
  have four: "(\<forall>r<4. \<forall>s. \<exists>t. ?body (flaky_world 1 4 1 r) s validated_ctx
                     = (t, Inl (TransientProcessingError (?msg r))))
        \<and> (4::nat) \<le> 5
        \<and> (\<forall>s. \<exists>t. ?body (flaky_world 1 4 1 4) s validated_ctx
                     = (t, Inr (validated_ctx\<lparr>ctx_thumbnail_path := Some clip_thumb\<rparr>)))"
    using fails works by (simp add: flaky_world_def) blast
  have row: "db_get (rows queued_state) 1 = Some (active_row 1 ''queued'')"
    by code_simp
  have six: "(\<forall>r<6. \<forall>s. \<exists>t. ?body (flaky_world 1 6 1 r) s validated_ctx
                     = (t, Inl (TransientProcessingError (?msg r))) \<and> rows t = rows s)
        \<and> example_UUID (media_task_id validated_ctx) = Some 1
        \<and> media_task_id validated_ctx \<noteq> []
        \<and> db_get (rows queued_state) 1 = Some (active_row 1 ''queued'')"
    using fails u row by (simp add: flaky_world_def c example_mid_def)
  note ok =
    C3_transient_retries [where body = ?body and envs = "flaky_world 1 4 1" and k = 4
      and c = validated_ctx and m = ?msg
      and res = "validated_ctx\<lparr>ctx_thumbnail_path := Some clip_thumb\<rparr>"
      and UUID = example_UUID and name = "''app.tasks.generate_thumbnail''"
      and ?s0.0 = queued_state]
  note ko =
    C3_transient_retries [where body = ?body and envs = "flaky_world 1 6 1"
      and c = validated_ctx and m = ?msg and UUID = example_UUID and u = 1
      and name = "''app.tasks.generate_thumbnail''" and ?s0.0 = queued_state
      and row = "active_row 1 ''queued''"]
  have completed:
    "run_summary (fst (execute_chain example_UUID ascii_lower default_settings (flaky_world 1 4)
                          queued_state (initial_ctx example_mid clip_path)))
     = ([(''completed'', 100, None)],
        [(''app.tasks.validate_media'', 0), (''app.tasks.generate_thumbnail'', 0),
         (''app.tasks.generate_thumbnail'', 1), (''app.tasks.generate_thumbnail'', 2),
         (''app.tasks.generate_thumbnail'', 3), (''app.tasks.generate_thumbnail'', 4),
         (''app.tasks.convert_resolutions'', 0), (''app.tasks.apply_watermark'', 0),
         (''app.tasks.upload_outputs'', 0), (''app.tasks.finalize_success'', 0)],
        [1, 1, 2, 7])"
    by code_simp
  have failed:
    "run_summary (fst (execute_chain example_UUID ascii_lower default_settings (flaky_world 2 6)
                          queued_state (initial_ctx example_mid clip_path)))
     = ([(''failed'', 25, Some ''Failed to convert 1080p'')],
        [(''app.tasks.validate_media'', 0), (''app.tasks.generate_thumbnail'', 0),
         (''app.tasks.convert_resolutions'', 0), (''app.tasks.convert_resolutions'', 1),
         (''app.tasks.convert_resolutions'', 2), (''app.tasks.convert_resolutions'', 3),
         (''app.tasks.convert_resolutions'', 4), (''app.tasks.convert_resolutions'', 5)],
        [1, 1, 2, 7, 7])"
    by code_simp
  show ?thesis
    using four six ok ko completed failed by blast
qed

section \<open>Floating point\<close>

text \<open>
  The rounding error of one float operation, and the integers that are floats; then the
  height that the resize computes, next to the height that the specification words.
\<close>

lemma pow2_pos [simp]: "0 < pow2 k"
  by (simp add: pow2_def)

lemma pow2_nonzero [simp]: "pow2 k \<noteq> 0"
  by (simp add: pow2_def)

lemma pow2_nonneg [simp]: "0 \<le> pow2 k"
  by (simp add: pow2_def)

lemma pow2_powi: "pow2 k = 2 powi k"
  by (auto simp add: pow2_def power_int_def inverse_eq_divide power_one_over)

lemma pow2_add: "pow2 (a + b) = pow2 a * pow2 b"
  by (simp add: pow2_powi power_int_add)

lemma pow2_mono: "a \<le> b \<Longrightarrow> pow2 a \<le> pow2 b"
proof -
  assume "a \<le> b"
  then obtain d where d: "b = a + d" "0 \<le> d"
    by (metis add_diff_cancel_left' diff_ge_0_iff_ge diff_add_cancel add.commute)
  have "1 \<le> pow2 d" using d(2) by (simp add: pow2_def)
  then have "pow2 a * 1 \<le> pow2 a * pow2 d"
    by (intro mult_left_mono) simp_all
  then show ?thesis unfolding d(1) pow2_add by simp
qed

lemma floor_log2_lower:
  assumes "0 < x"
  shows "pow2 (floor_log2 x) \<le> x"
proof -
  obtain p q where pq: "quotient_of x = (p, q)" by (cases "quotient_of x")
  have q: "0 < q" using pq quotient_of_denom_pos by blast
  have x: "x = of_int p / of_int q" using pq by (rule quotient_of_div)
  have p: "0 < p" using assms q x by (simp add: zero_less_divide_iff)
  let ?k = "bitlen p - bitlen q"
  show ?thesis
  proof (cases "pow2 ?k \<le> x")
    case True
    then show ?thesis by (simp add: floor_log2_def pq)
  next
    case False
    have bp: "2 ^ nat (bitlen p - 1) \<le> p" using bitlen_bounds [OF p] by simp
    have bq: "q < 2 ^ nat (bitlen q)" using bitlen_bounds [OF q] by simp
    have lp: "pow2 (bitlen p - 1) \<le> of_int p"
    proof -
      have "1 \<le> bitlen p" using p by (simp add: bitlen_alt_def)
      then have "pow2 (bitlen p - 1) = 2 ^ nat (bitlen p - 1)" by (simp add: pow2_def)
      also have "\<dots> = of_int (2 ^ nat (bitlen p - 1))" by simp
      also have "\<dots> \<le> of_int p" using bp by (simp only: of_int_le_iff)
      finally show ?thesis .
    qed
    have lq: "of_int q \<le> pow2 (bitlen q)"
    proof -
      have "pow2 (bitlen q) = of_int (2 ^ nat (bitlen q))"
        using bitlen_nonneg [of q] by (simp add: pow2_def)
      moreover have "q \<le> 2 ^ nat (bitlen q)"
        using bq by simp
      then have "(of_int q :: rat) \<le> of_int (2 ^ nat (bitlen q))"
        by (simp only: of_int_le_iff)
      ultimately show ?thesis by simp
    qed
    have "pow2 (?k - 1) * of_int q \<le> pow2 (?k - 1) * pow2 (bitlen q)"
      using lq by (simp add: mult_left_mono)
    also have "\<dots> = pow2 (bitlen p - 1)"
      by (simp add: pow2_add [symmetric])
    also have "\<dots> \<le> of_int p" by (rule lp)
    finally have "pow2 (?k - 1) \<le> x"
      unfolding x using q by (simp add: pos_le_divide_eq)
    then show ?thesis using False by (simp add: floor_log2_def pq)
  qed
qed

lemma floor_log2_upper:
  assumes "0 < x"
  shows "x < pow2 (floor_log2 x + 1)"
proof -
  obtain p q where pq: "quotient_of x = (p, q)" by (cases "quotient_of x")
  have q: "0 < q" using pq quotient_of_denom_pos by blast
  have x: "x = of_int p / of_int q" using pq by (rule quotient_of_div)
  have p: "0 < p" using assms q x by (simp add: zero_less_divide_iff)
  let ?k = "bitlen p - bitlen q"
  show ?thesis
  proof (cases "pow2 ?k \<le> x")
    case False
    then show ?thesis by (simp add: floor_log2_def pq)
  next
    case True
    have bp: "p < 2 ^ nat (bitlen p)" using bitlen_bounds [OF p] by simp
    have bq: "2 ^ nat (bitlen q - 1) \<le> q" using bitlen_bounds [OF q] by simp
    have lp: "of_int p < pow2 (bitlen p)"
    proof -
      have "pow2 (bitlen p) = of_int (2 ^ nat (bitlen p))"
        using bitlen_nonneg [of p] by (simp add: pow2_def)
      moreover have "(of_int p :: rat) < of_int (2 ^ nat (bitlen p))"
        using bp by (simp only: of_int_less_iff)
      ultimately show ?thesis by simp
    qed
    have lq: "pow2 (bitlen q - 1) \<le> of_int q"
    proof -
      have "1 \<le> bitlen q" using q by (simp add: bitlen_alt_def)
      then have "pow2 (bitlen q - 1) = of_int (2 ^ nat (bitlen q - 1))" by (simp add: pow2_def)
      also have "\<dots> \<le> of_int q" using bq by (simp only: of_int_le_iff)
      finally show ?thesis .
    qed
    have "of_int p < pow2 (bitlen p)" by (rule lp)
    also have "\<dots> = pow2 (?k + 1) * pow2 (bitlen q - 1)"
      by (simp add: pow2_add [symmetric])
    also have "\<dots> \<le> pow2 (?k + 1) * of_int q"
      using lq by (simp add: mult_left_mono)
    finally have "x < pow2 (?k + 1)"
      unfolding x using q by (simp add: pos_divide_less_eq)
    then show ?thesis using True by (simp add: floor_log2_def pq)
  qed
qed

lemma round_half_even_close: "\<bar>of_int (round_half_even y) - y\<bar> \<le> 1 / 2"
proof -
  have a: "of_int \<lfloor>y\<rfloor> \<le> y" "y < of_int \<lfloor>y\<rfloor> + 1" by linarith+
  show ?thesis
    using a by (auto simp add: round_half_even_def Let_def abs_le_iff)
qed

lemma float_round_error:
  assumes "0 < x"
  shows "\<bar>float_round x - x\<bar> \<le> x * pow2 (- 53)"
proof -
  let ?e = "floor_log2 x"
  let ?ulp = "pow2 (?e - 52)"
  let ?m = "round_half_even (x / ?ulp)"
  have fr: "float_round x = of_int ?m * ?ulp"
    using assms by (simp add: float_round_def Let_def)
  have "\<bar>of_int ?m * ?ulp - x\<bar> = \<bar>of_int ?m - x / ?ulp\<bar> * ?ulp"
  proof -
    have "of_int ?m * ?ulp - x = (of_int ?m - x / ?ulp) * ?ulp"
      by (simp add: left_diff_distrib)
    then show ?thesis by (simp add: abs_mult)
  qed
  also have "\<dots> \<le> (1 / 2) * ?ulp"
    using round_half_even_close [of "x / ?ulp"] by (simp add: mult_right_mono)
  also have "\<dots> = pow2 ?e * pow2 (- 53)"
  proof -
    have "?ulp = pow2 ?e * pow2 (- 52)" using pow2_add [of ?e "- 52"] by simp
    moreover have "pow2 (- 52) = 2 * pow2 (- 53)" by (simp add: pow2_def)
    ultimately show ?thesis by simp
  qed
  also have "\<dots> \<le> x * pow2 (- 53)"
    using floor_log2_lower [OF assms] by (simp add: mult_right_mono)
  finally show ?thesis unfolding fr .
qed


lemma round_half_even_of_int [simp]: "round_half_even (of_int z) = z"
  by (simp add: round_half_even_def)

lemma float_round_nonneg:
  assumes "0 \<le> x"
  shows "0 \<le> float_round x"
proof (cases "x = 0")
  case True
  then show ?thesis by (simp add: float_round_def)
next
  case False
  then have x: "0 < x" using assms by simp
  have u: "pow2 (- 53) \<le> 1" by (simp add: pow2_def)
  have "x * pow2 (- 53) \<le> x * 1"
    using x u by (intro mult_left_mono) simp_all
  then show ?thesis
    using float_round_error [OF x] by (simp add: abs_le_iff)
qed

text \<open>Integers below \<open>2 ^ 53\<close> are floats.\<close>

lemma float_of_int_exact:
  assumes "n < 2 ^ 53"
  shows "float_of_int (int n) = of_nat n"
proof (cases "n = 0")
  case True
  then show ?thesis by (simp add: float_of_int_def float_round_def)
next
  case False
  let ?x = "of_nat n :: rat"
  let ?e = "floor_log2 ?x"
  have x: "0 < ?x" using False by simp
  have "?x < 2 ^ 53" using assms by (metis of_nat_less_iff of_nat_numeral of_nat_power)
  then have "?x < pow2 53" by (simp add: pow2_def)
  then have "pow2 ?e < pow2 53"
    using floor_log2_lower [OF x] by simp
  then have e: "?e \<le> 52"
    using pow2_mono [of 53 ?e] by (cases "?e \<le> 52") simp_all
  define d where "d = nat (52 - ?e)"
  have ulp: "pow2 (?e - 52) = 1 / 2 ^ d"
    using e by (cases "?e = 52") (simp_all add: pow2_def d_def)
  have "?x / pow2 (?e - 52) = of_int (int n * 2 ^ d)"
    unfolding ulp by simp
  then have "round_half_even (?x / pow2 (?e - 52)) = int n * 2 ^ d"
    by (simp only: round_half_even_of_int)
  then show ?thesis
    using x by (simp add: float_of_int_def float_round_def Let_def ulp)
qed

lemma resize_height_positive_width:
  assumes "0 < iw" and "iw < 2 ^ 53" and "w < 2 ^ 53" and "ih < 2 ^ 53"
  shows "resize_height w iw ih
           = Inr (max 1 \<lfloor>float_round (of_nat ih * float_round (of_nat w / of_nat iw))\<rfloor>)"
proof -
  have nn: "0 \<le> float_round (of_nat ih * float_round (of_nat w / of_nat iw))"
    by (intro float_round_nonneg mult_nonneg_nonneg) simp_all
  show ?thesis
    using assms nn
    by (simp add: resize_height_def float_div_def float_mul_def float_of_int_exact
          int_of_float_def)
qed

lemma product_error:
  fixes q y p r rt u h :: rat
  assumes "0 \<le> h" and "0 < r" and "0 \<le> u"
    and "\<bar>rt - r\<bar> \<le> r * u" and "y = h * rt" and "q = h * r" and "\<bar>p - y\<bar> \<le> y * u"
  shows "\<bar>p - q\<bar> \<le> q * (u * (2 + u))"
proof -
  have yq: "\<bar>y - q\<bar> \<le> q * u"
  proof -
    have "\<bar>y - q\<bar> = h * \<bar>rt - r\<bar>"
      using assms(1,5,6) by (simp add: right_diff_distrib [symmetric] abs_mult)
    also have "\<dots> \<le> h * (r * u)"
      using assms(1,4) by (intro mult_left_mono)
    finally show ?thesis using assms(6) by (simp add: mult.assoc)
  qed
  then have y: "y \<le> q + q * u" by (simp add: abs_le_iff)
  have "y * u \<le> (q + q * u) * u"
    using y assms(3) by (intro mult_right_mono)
  then have "\<bar>p - y\<bar> \<le> (q + q * u) * u"
    using assms(7) by simp
  then have "\<bar>p - q\<bar> \<le> (q + q * u) * u + q * u"
    using yq by (simp add: abs_le_iff)
  also have "\<dots> = q * (u * (2 + u))"
    by (simp add: algebra_simps)
  finally show ?thesis .
qed


lemma floor_near_round:
  fixes p q :: rat
  assumes "\<bar>p - q\<bar> \<le> 1 / 2"
  shows "round q - 1 \<le> \<lfloor>p\<rfloor> \<and> \<lfloor>p\<rfloor> \<le> round q"
proof -
  have above: "p \<le> q + 1 / 2" and below: "q + 1 / 2 - 1 \<le> p"
    using assms by linarith+
  have up: "\<lfloor>p\<rfloor> \<le> \<lfloor>q + 1 / 2\<rfloor>"
    using above by (rule floor_mono)
  have low: "\<lfloor>q + 1 / 2 - 1\<rfloor> \<le> \<lfloor>p\<rfloor>"
    using below by (rule floor_mono)
  have one: "\<lfloor>q + 1 / 2 - 1\<rfloor> = \<lfloor>q + 1 / 2\<rfloor> - 1"
    by (rule floor_diff_one)
  show ?thesis
    unfolding round_def using up low one by linarith
qed

lemma resize_height_near_spec:
  assumes "0 < iw" and "iw < 2 ^ 53" and "0 < w" and "w \<le> 1920" and "ih < 2 ^ 31"
  shows "\<exists>h. resize_height w iw ih = Inr h
           \<and> spec_out_height w iw ih - 1 \<le> h \<and> h \<le> spec_out_height w iw ih"
proof -
  define r :: rat where "r = of_nat w / of_nat iw"
  define u :: rat where "u = pow2 (- 53)"
  define y :: rat where "y = of_nat ih * float_round r"
  define q :: rat where "q = of_nat ih * r"
  have w53: "w < 2 ^ 53" using assms(4) by simp
  have ih53: "ih < 2 ^ 53"
  proof -
    have "(2::nat) ^ 31 \<le> 2 ^ 53" by simp
    then show ?thesis using assms(5) by linarith
  qed
  have code: "resize_height w iw ih = Inr (max 1 \<lfloor>float_round y\<rfloor>)"
    using resize_height_positive_width [OF assms(1,2) w53 ih53] by (simp add: y_def r_def)
  have spec: "spec_out_height w iw ih = max 1 (round q)"
    by (simp add: spec_out_height_def q_def r_def mult.commute)
  have r: "0 < r" using assms(1,3) by (simp add: r_def)
  have u: "0 \<le> u" "u \<le> 1 / 2 ^ 53" by (simp_all add: u_def pow2_def)
  have rt: "\<bar>float_round r - r\<bar> \<le> r * u"
    using float_round_error [OF r] by (simp add: u_def)
  have near: "\<bar>float_round y - q\<bar> \<le> 1 / 2"
  proof (cases "ih = 0")
    case True
    then show ?thesis by (simp add: y_def q_def float_round_def)
  next
    case False
    have "r * u \<le> r * (1 / 2)"
      using r u by (intro mult_left_mono) simp_all
    then have "r / 2 \<le> float_round r"
      using rt by (simp add: abs_le_iff)
    then have "0 < float_round r" using r by simp
    then have ypos: "0 < y" using False by (simp add: y_def)
    have py: "\<bar>float_round y - y\<bar> \<le> y * u"
      using float_round_error [OF ypos] by (simp add: u_def)
    have err: "\<bar>float_round y - q\<bar> \<le> q * (u * (2 + u))"
      using r u(1) rt py
      by (intro product_error [where h = "of_nat ih" and r = r and rt = "float_round r"
            and y = y]) (simp_all add: y_def q_def)
    have q0: "0 \<le> q" using r by (simp add: q_def)
    have "r \<le> of_nat w"
    proof -
      have "(1::rat) \<le> of_nat iw" using assms(1) by simp
      then have "of_nat w / of_nat iw \<le> (of_nat w :: rat) / 1"
        by (intro divide_left_mono) simp_all
      then show ?thesis by (simp add: r_def)
    qed
    also have "\<dots> \<le> 1920" using assms(4) by simp
    finally have r1920: "r \<le> 1920" .
    have "(of_nat ih :: rat) \<le> 2 ^ 31"
      using assms(5) by (metis less_imp_le of_nat_le_iff of_nat_numeral of_nat_power)
    then have "q \<le> 2 ^ 31 * 1920"
      unfolding q_def using r r1920 by (intro mult_mono) simp_all
    then have "q * (u * (2 + u)) \<le> (2 ^ 31 * 1920) * (u * (2 + u))"
      using u(1) by (intro mult_right_mono) simp_all
    also have "\<dots> \<le> (2 ^ 31 * 1920) * ((1 / 2 ^ 53) * 3)"
    proof -
      have "2 + u \<le> 3" using u(2) by simp
      then have "u * (2 + u) \<le> (1 / 2 ^ 53) * 3"
        using u by (intro mult_mono) simp_all
      then show ?thesis by (intro mult_left_mono) simp_all
    qed
    also have "\<dots> \<le> 1 / 2" by simp
    finally show ?thesis using err by simp
  qed
  have "round q - 1 \<le> \<lfloor>float_round y\<rfloor> \<and> \<lfloor>float_round y\<rfloor> \<le> round q"
    using near by (rule floor_near_round)
  then show ?thesis
    unfolding code spec by auto
qed


section \<open>Resized heights\<close>

lemma resized_append [simp]: "resized (xs @ ys) = resized xs @ resized ys"
  by (induction xs rule: resized.induct) auto

lemma update_media_row_resized:
  "update_media_row UUID s mid st pr out err th = Inr t \<Longrightarrow> resized (trace t) = resized (trace s)"
  by (auto simp add: update_media_row_def Let_def split: option.splits)

lemma convert_loop_image:
  assumes "kind c = Some ''image''" and "image_open e (input_path c) = Inr (iw, ih)"
    and "resize_height 1920 iw ih = Inr h1" and "resize_height 1280 iw ih = Inr h2"
    and "resize_height 854 iw ih = Inr h3"
  shows "\<exists>res s1. convert_loop cfg e c resolutions s [] = (s1, res)
           \<and> resized (trace s1)
               = resized (trace s)
                 @ map snd (takeWhile fst
                     [(variant_saves cfg e c ''1080p'' 1920 h1, (1920, nat h1)),
                      (variant_saves cfg e c ''720p'' 1280 h2, (1280, nat h2)),
                      (variant_saves cfg e c ''480p'' 854 h3, (854, nat h3))])"
  using assms
  by (simp add: resolutions_def lookup_def Let_def variant_saves_def split: option.splits)

lemma convert_resolutions_image:
  assumes "kind c = Some ''image''" and "image_open e (input_path c) = Inr (iw, ih)"
    and "resize_height 1920 iw ih = Inr h1" and "resize_height 1280 iw ih = Inr h2"
    and "resize_height 854 iw ih = Inr h3"
  shows "resized (trace (fst (convert_resolutions UUID cfg e s c)))
           = resized (trace s)
             @ map snd (takeWhile fst
                 [(variant_saves cfg e c ''1080p'' 1920 h1, (1920, nat h1)),
                  (variant_saves cfg e c ''720p'' 1280 h2, (1280, nat h2)),
                  (variant_saves cfg e c ''480p'' 854 h3, (854, nat h3))])"
proof -
  obtain res s1 where loop: "convert_loop cfg e c resolutions s [] = (s1, res)"
    and heights: "resized (trace s1)
                    = resized (trace s)
                      @ map snd (takeWhile fst
                          [(variant_saves cfg e c ''1080p'' 1920 h1, (1920, nat h1)),
                           (variant_saves cfg e c ''720p'' 1280 h2, (1280, nat h2)),
                           (variant_saves cfg e c ''480p'' 854 h3, (854, nat h3))])"
    using convert_loop_image [OF assms, of cfg s] by blast
  show ?thesis
  proof (cases res)
    case (Inl x)
    then show ?thesis using loop heights by (simp add: convert_resolutions_def)
  next
    case conv: (Inr conv)
    show ?thesis
    proof (cases "update_media_row UUID s1 (media_task_id c) None (Some 55) None None None")
      case (Inl x)
      then show ?thesis using loop conv heights by (simp add: convert_resolutions_def Let_def)
    next
      case (Inr t)
      then show ?thesis
        using loop conv heights update_media_row_resized [where UUID = UUID, OF Inr]
        by (simp add: convert_resolutions_def Let_def)
    qed
  qed
qed

text \<open>
  A resize or save that raises ends the stage with this exception, and the variants
  after it are not written: with a full disk only the first one is, and an image that
  cannot be saved under its file name leaves none.
\<close>

lemma convert_resolutions_unsaved_variants:
  "convert_resolutions example_UUID default_settings full_disk_env queued_state photo_ctx
     = (queued_state
          \<lparr>trace :=
             [Written ''/tmp/media/output/6f1c2d3e-0000-4000-8000-000000000001_photo_1080p.PNG''
                (PIL_resize photo_path 1920 960)]\<rparr>,
        Inl (OSError ''[Errno 28] No space left on device''))
   \<and> convert_resolutions example_UUID default_settings alpha_jpeg_env queued_state photo_ctx
     = (queued_state, Inl (OSError ''cannot write mode RGBA as JPEG''))"
  by code_simp

text \<open>
  C6, as the specification states it, fails: the code truncates the product where the
  specification rounds it. A 1000 x 501 image is resized to heights 961, 641 and 427;
  rounding \<open>width * 501 / 1000\<close> to the nearest integer gives 962, 641 and 428.
\<close>

theorem C6_height_is_truncated:
  "resized (trace (fst (convert_resolutions example_UUID default_settings odd_photo_env
                          queued_state photo_ctx)))
     = [(1920, 961), (1280, 641), (854, 427)]
   \<and> map (\<lambda>w. spec_out_height w 1000 501) [1920, 1280, 854] = [962, 641, 428]"
proof -
  have "resized (trace (fst (convert_resolutions example_UUID default_settings odd_photo_env
                          queued_state photo_ctx)))
     = [(1920, 961), (1280, 641), (854, 427)]"
    by code_simp
  moreover have "map (\<lambda>w. spec_out_height w 1000 501) [1920, 1280, 854] = [962, 641, 428]"
    by (simp add: spec_out_height_def round_def floor_eq_iff)
  ultimately show ?thesis by simp
qed

text \<open>
  C6, amended. For an image of width \<open>0 < iw < 2 ^ 53\<close> and height \<open>ih < 2 ^ 31\<close> and
  each target width, the height is \<open>max(1, int(ih * (width / float(iw))))\<close>: the product
  of the height and the rounded ratio, rounded to a float and truncated. It is the
  specification's rounded value or one less. \<open>convert_resolutions\<close> on an image writes
  the variants in the order 1920, 1280, 854 with these heights, up to the first one whose
  resize or save raises; when none raises, it writes all three. A 1000 x 500 source gives
  960 at width 1920 and 427 at width 854.
\<close>

theorem C6_resized_heights:
  "(0 < iw \<and> iw < 2 ^ 53 \<and> ih < 2 ^ 31 \<and> (w = 1920 \<or> w = 1280 \<or> w = 854) \<longrightarrow>
      (\<exists>h. resize_height w iw ih = Inr h
          \<and> h = max 1 \<lfloor>float_round (of_nat ih * float_round (of_nat w / of_nat iw))\<rfloor>
          \<and> spec_out_height w iw ih - 1 \<le> h \<and> h \<le> spec_out_height w iw ih))
   \<and> (kind c = Some ''image'' \<and> image_open e (input_path c) = Inr (iw, ih)
        \<and> resize_height 1920 iw ih = Inr h1 \<and> resize_height 1280 iw ih = Inr h2
        \<and> resize_height 854 iw ih = Inr h3 \<longrightarrow>
        resized (trace (fst (convert_resolutions UUID cfg e s c)))
          = resized (trace s)
            @ map snd (takeWhile fst
                [(variant_saves cfg e c ''1080p'' 1920 h1, (1920, nat h1)),
                 (variant_saves cfg e c ''720p'' 1280 h2, (1280, nat h2)),
                 (variant_saves cfg e c ''480p'' 854 h3, (854, nat h3))]))
   \<and> (kind c = Some ''image'' \<and> image_open e (input_path c) = Inr (iw, ih)
        \<and> resize_height 1920 iw ih = Inr h1 \<and> resize_height 1280 iw ih = Inr h2
        \<and> resize_height 854 iw ih = Inr h3
        \<and> variant_saves cfg e c ''1080p'' 1920 h1 \<and> variant_saves cfg e c ''720p'' 1280 h2
        \<and> variant_saves cfg e c ''480p'' 854 h3 \<longrightarrow>
        resized (trace (fst (convert_resolutions UUID cfg e s c)))
          = resized (trace s) @ [(1920, nat h1), (1280, nat h2), (854, nat h3)])
   \<and> resize_height 1920 1000 500 = Inr 960 \<and> resize_height 854 1000 500 = Inr 427"
proof (intro conjI impI)
  assume a: "0 < iw \<and> iw < 2 ^ 53 \<and> ih < 2 ^ 31 \<and> (w = 1920 \<or> w = 1280 \<or> w = 854)"
  then have w: "0 < w" "w \<le> 1920" "w < 2 ^ 53" by auto
  have ih: "ih < 2 ^ 53"
  proof -
    have "(2::nat) ^ 31 \<le> 2 ^ 53" by simp
    then show ?thesis using a by linarith
  qed
  have "resize_height w iw ih
          = Inr (max 1 \<lfloor>float_round (of_nat ih * float_round (of_nat w / of_nat iw))\<rfloor>)"
    using a w ih by (intro resize_height_positive_width) simp_all
  then show "\<exists>h. resize_height w iw ih = Inr h
          \<and> h = max 1 \<lfloor>float_round (of_nat ih * float_round (of_nat w / of_nat iw))\<rfloor>
          \<and> spec_out_height w iw ih - 1 \<le> h \<and> h \<le> spec_out_height w iw ih"
    using resize_height_near_spec [of iw w ih] a w by auto
next
  assume "kind c = Some ''image'' \<and> image_open e (input_path c) = Inr (iw, ih)
        \<and> resize_height 1920 iw ih = Inr h1 \<and> resize_height 1280 iw ih = Inr h2
        \<and> resize_height 854 iw ih = Inr h3"
  then show "resized (trace (fst (convert_resolutions UUID cfg e s c)))
          = resized (trace s)
            @ map snd (takeWhile fst
                [(variant_saves cfg e c ''1080p'' 1920 h1, (1920, nat h1)),
                 (variant_saves cfg e c ''720p'' 1280 h2, (1280, nat h2)),
                 (variant_saves cfg e c ''480p'' 854 h3, (854, nat h3))])"
    using convert_resolutions_image [where UUID = UUID] by blast
next
  assume a: "kind c = Some ''image'' \<and> image_open e (input_path c) = Inr (iw, ih)
        \<and> resize_height 1920 iw ih = Inr h1 \<and> resize_height 1280 iw ih = Inr h2
        \<and> resize_height 854 iw ih = Inr h3
        \<and> variant_saves cfg e c ''1080p'' 1920 h1 \<and> variant_saves cfg e c ''720p'' 1280 h2
        \<and> variant_saves cfg e c ''480p'' 854 h3"
  then have "resized (trace (fst (convert_resolutions UUID cfg e s c)))
          = resized (trace s)
            @ map snd (takeWhile fst
                [(variant_saves cfg e c ''1080p'' 1920 h1, (1920, nat h1)),
                 (variant_saves cfg e c ''720p'' 1280 h2, (1280, nat h2)),
                 (variant_saves cfg e c ''480p'' 854 h3, (854, nat h3))])"
    using convert_resolutions_image [where UUID = UUID] by blast
  then show "resized (trace (fst (convert_resolutions UUID cfg e s c)))
          = resized (trace s) @ [(1920, nat h1), (1280, nat h2), (854, nat h3)]"
    using a by simp
next
  show "resize_height 1920 1000 500 = Inr 960" by code_simp
next
  show "resize_height 854 1000 500 = Inr 427" by code_simp
qed

theorem C6_resized_heights_witness:
  "(0::nat) < 1000 \<and> (1000::nat) < 2 ^ 53 \<and> (500::nat) < 2 ^ 31
   \<and> ((1920::nat) = 1920 \<or> (1920::nat) = 1280 \<or> (1920::nat) = 854)
   \<and> (\<exists>h. resize_height 1920 1000 500 = Inr h
          \<and> h = max 1 \<lfloor>float_round (of_nat 500 * float_round (of_nat 1920 / of_nat 1000))\<rfloor>
          \<and> spec_out_height 1920 1000 500 - 1 \<le> h \<and> h \<le> spec_out_height 1920 1000 500)
   \<and> kind photo_ctx = Some ''image''
   \<and> image_open working_env (input_path photo_ctx) = Inr (1000, 500)
   \<and> resize_height 1920 1000 500 = Inr 960 \<and> resize_height 1280 1000 500 = Inr 640
   \<and> resize_height 854 1000 500 = Inr 427
   \<and> variant_saves default_settings working_env photo_ctx ''1080p'' 1920 960
   \<and> variant_saves default_settings working_env photo_ctx ''720p'' 1280 640
   \<and> variant_saves default_settings working_env photo_ctx ''480p'' 854 427
   \<and> resized (trace (fst (convert_resolutions example_UUID default_settings working_env
                            queued_state photo_ctx)))
       = resized (trace queued_state)
         @ map snd (takeWhile fst
             [(variant_saves default_settings working_env photo_ctx ''1080p'' 1920 960,
               (1920, nat 960)),
              (variant_saves default_settings working_env photo_ctx ''720p'' 1280 640,
               (1280, nat 640)),
              (variant_saves default_settings working_env photo_ctx ''480p'' 854 427,
               (854, nat 427))])
   \<and> resized (trace (fst (convert_resolutions example_UUID default_settings working_env
                            queued_state photo_ctx)))
       = resized (trace queued_state) @ [(1920, nat 960), (1280, nat 640), (854, nat 427)]"
proof -
  have dims: "(0::nat) < 1000 \<and> (1000::nat) < 2 ^ 53 \<and> (500::nat) < 2 ^ 31
      \<and> ((1920::nat) = 1920 \<or> (1920::nat) = 1280 \<or> (1920::nat) = 854)"
    by simp
  have img: "kind photo_ctx = Some ''image''"
    "image_open working_env (input_path photo_ctx) = Inr (1000, 500)"
    by (simp_all add: photo_ctx_def working_env_def initial_ctx_def)
  have h1: "resize_height 1920 1000 500 = Inr 960" by code_simp
  have h2: "resize_height 1280 1000 500 = Inr 640" by code_simp
  have h3: "resize_height 854 1000 500 = Inr 427" by code_simp
  have saves: "variant_saves default_settings working_env photo_ctx ''1080p'' 1920 960"
    "variant_saves default_settings working_env photo_ctx ''720p'' 1280 640"
    "variant_saves default_settings working_env photo_ctx ''480p'' 854 427"
    by (simp_all add: variant_saves_def working_env_def)
  note inst =
    C6_resized_heights [where iw = 1000 and ih = 500 and w = 1920 and c = photo_ctx
      and e = working_env and ?h1.0 = 960 and ?h2.0 = 640 and ?h3.0 = 427
      and UUID = example_UUID and cfg = default_settings and s = queued_state]
  have a: "\<exists>h. resize_height 1920 1000 500 = Inr h
          \<and> h = max 1 \<lfloor>float_round (of_nat 500 * float_round (of_nat 1920 / of_nat 1000))\<rfloor>
          \<and> spec_out_height 1920 1000 500 - 1 \<le> h \<and> h \<le> spec_out_height 1920 1000 500"
    using inst dims by blast
  have b: "resized (trace (fst (convert_resolutions example_UUID default_settings working_env
                            queued_state photo_ctx)))
       = resized (trace queued_state)
         @ map snd (takeWhile fst
             [(variant_saves default_settings working_env photo_ctx ''1080p'' 1920 960,
               (1920, nat 960)),
              (variant_saves default_settings working_env photo_ctx ''720p'' 1280 640,
               (1280, nat 640)),
              (variant_saves default_settings working_env photo_ctx ''480p'' 854 427,
               (854, nat 427))])"
    using inst img h1 h2 h3 by blast
  have c: "resized (trace (fst (convert_resolutions example_UUID default_settings working_env
                            queued_state photo_ctx)))
       = resized (trace queued_state) @ [(1920, nat 960), (1280, nat 640), (854, nat 427)]"
    using inst img h1 h2 h3 saves by blast
  show ?thesis
    using dims img h1 h2 h3 saves a b c by blast
qed

end
